theory Spec2Isabelle
  imports Main "HOL-Library.Char_ord" "HOL-Library.List_Lexorder" "HOL-Library.Product_Lexorder"
begin

section \<open>Data model (app/meals/models.py)\<close>

text \<open>
  The pydantic models become records. Field names are those of the source; where two
  models share a field name the later record carries a short prefix (\<open>fi_\<close> for FoodItem,
  \<open>fc_\<close> for FoodItemCreate, \<open>m_\<close> for Meal, \<open>ds_\<close> for DailySummary, \<open>dd_\<close> for DayData).
  \<open>Optional[T]\<close> is \<open>T option\<close>, \<open>str\<close> is \<open>string\<close>.
\<close>

record MicronutrientPresence =
  calcium :: bool
  iron :: bool
  folicAcid :: bool
  protein :: bool
  vitaminD :: "bool option"
  omega3 :: "bool option"
  fiber :: "bool option"

record FoodItem =
  fi_id :: string
  fi_name :: string
  fi_portion :: "string option"
  fi_macroCategory :: "string option"
  fi_rainbowColor :: "string option"
  fi_phytonutrientFocus :: "string option"
  fi_containsMicronutrients :: MicronutrientPresence
  fi_hasWarnings :: bool
  fi_warningMessage :: "string option"
  fi_warningType :: "string option"
  fi_tags :: "string list option"
  fi_description :: "string option"

record FoodItemCreate =
  fc_name :: string
  fc_portion :: "string option"
  fc_macroCategory :: "string option"
  fc_rainbowColor :: "string option"
  fc_phytonutrientFocus :: "string option"
  fc_containsMicronutrients :: MicronutrientPresence
  fc_hasWarnings :: bool
  fc_warningMessage :: "string option"
  fc_warningType :: "string option"
  fc_tags :: "string list option"
  fc_description :: "string option"

record Meal =
  m_id :: string
  m_type :: string
  m_items :: "FoodItem list"
  m_containsMicronutrients :: MicronutrientPresence
  m_notes :: "string option"

record DayMeals =
  breakfast :: "Meal option"
  snack1 :: "Meal option"
  lunch :: "Meal option"
  snack2 :: "Meal option"
  dinner :: "Meal option"

record NutrientStatus =
  covered :: bool
  mealsCovered :: "string list"
  status :: string

record DailySummary =
  ds_calcium :: NutrientStatus
  ds_iron :: NutrientStatus
  ds_folicAcid :: NutrientStatus
  ds_protein :: NutrientStatus
  ds_hasWarnings :: bool
  missingNutrients :: "string list"

record DayData =
  dd_id :: string
  dd_date :: string
  dayOfWeek :: string
  dd_meals :: DayMeals
  dailySummary :: DailySummary

text \<open>
  The defaults of \<open>MicronutrientPresence()\<close> and \<open>DayMeals()\<close>: every boolean \<open>False\<close>,
  every optional field \<open>None\<close>.
\<close>

definition MicronutrientPresence_default :: MicronutrientPresence where
  "MicronutrientPresence_default =
     \<lparr>calcium = False, iron = False, folicAcid = False, protein = False,
      vitaminD = None, omega3 = None, fiber = None\<rparr>"

definition DayMeals_default :: DayMeals where
  "DayMeals_default =
     \<lparr>breakfast = None, snack1 = None, lunch = None, snack2 = None, dinner = None\<rparr>"

section \<open>Rows of the foods table\<close>

text \<open>
  A row of \<open>foods\<close> as the cursor returns it (a dict). \<open>_map_food_item\<close> reads \<open>id\<close> and
  \<open>name\<close> by subscript and every other column with \<open>row.get\<close>. For the columns read with
  \<open>row.get(key)\<close> a missing key and an SQL NULL both give \<open>None\<close>, so they are options.
  \<open>is_safe_pregnancy\<close> is read with \<open>row.get(key, True)\<close>, where a missing key and a NULL
  differ, so that column keeps the three cases apart.
\<close>

datatype 'a column = Absent | Null | Val 'a

record food_row =
  row_id :: string
  row_name :: string
  row_portion :: "string option"
  row_macro_category :: "string option"
  row_rainbow_color :: "string option"
  row_phytonutrient_focus :: "string option"
  row_is_safe_pregnancy :: "bool column"
  row_warning_message :: "string option"
  row_warning_type :: "string option"
  row_tags :: "string list option"
  row_description :: "string option"

section \<open>Python truth values\<close>

text \<open>\<open>bool(x)\<close> for an \<open>Optional[bool]\<close>: \<open>None\<close> and \<open>False\<close> are falsy.\<close>

fun truthy :: "bool option \<Rightarrow> bool" where
  "truthy None = False"
| "truthy (Some b) = b"

text \<open>\<open>bool(x)\<close> for an \<open>Optional[str]\<close>: \<open>None\<close> and the empty string are falsy.\<close>

fun truthy_str :: "string option \<Rightarrow> bool" where
  "truthy_str None = False"
| "truthy_str (Some s) = (s \<noteq> [])"

text \<open>\<open>row.get('is_safe_pregnancy', True)\<close> followed by \<open>not\<close>.\<close>

fun get_default_True :: "bool column \<Rightarrow> bool option" where
  "get_default_True Absent = Some True"
| "get_default_True Null = None"
| "get_default_True (Val b) = Some b"

text \<open>\<open>any(...)\<close> over a sequence of booleans.\<close>

definition py_any :: "bool list \<Rightarrow> bool" where
  "py_any bs = list_ex (\<lambda>b. b) bs"

section \<open>Helper methods of MealService (app/meals/service.py)\<close>

subsection \<open>\<open>_map_food_item\<close>\<close>

text \<open>
  The parameter \<open>nutrients\<close> defaults to \<open>None\<close>, which the body replaces by the empty list.
  \<open>x if nutrients else None\<close> tests the list for emptiness.
\<close>

definition map_food_item :: "food_row \<Rightarrow> string list option \<Rightarrow> FoodItem" where
  "map_food_item row nutrients_arg =
     (let nutrients = (case nutrients_arg of None \<Rightarrow> [] | Some ns \<Rightarrow> ns) in
      \<lparr>fi_id = row_id row,
       fi_name = row_name row,
       fi_portion = row_portion row,
       fi_macroCategory = row_macro_category row,
       fi_rainbowColor = row_rainbow_color row,
       fi_phytonutrientFocus = row_phytonutrient_focus row,
       fi_containsMicronutrients =
         \<lparr>calcium = (''calcium'' \<in> set nutrients),
          iron = (''iron'' \<in> set nutrients),
          folicAcid = (''folate'' \<in> set nutrients),
          protein = (''protein'' \<in> set nutrients),
          vitaminD = (if nutrients \<noteq> [] then Some (''vitamin_d'' \<in> set nutrients) else None),
          omega3 = (if nutrients \<noteq> [] then Some (''dha'' \<in> set nutrients) else None),
          fiber = (if nutrients \<noteq> [] then Some (''fiber'' \<in> set nutrients) else None)\<rparr>,
       fi_hasWarnings =
         (\<not> truthy (get_default_True (row_is_safe_pregnancy row))
          \<or> truthy_str (row_warning_message row)),
       fi_warningMessage = row_warning_message row,
       fi_warningType = row_warning_type row,
       fi_tags = row_tags row,
       fi_description = row_description row\<rparr>)"

subsection \<open>\<open>_aggregate_micronutrients\<close>\<close>

text \<open>
  The first four flags are \<open>any(flag for item in items)\<close>. The three optional flags are
  \<open>any(flag for item in items if flag)\<close>: the generator's filter keeps the items whose
  flag is truthy. \<open>any\<close> returns a \<open>bool\<close>, so the optional fields of the result are
  never \<open>None\<close>.
\<close>

definition aggregate_micronutrients :: "FoodItem list \<Rightarrow> MicronutrientPresence" where
  "aggregate_micronutrients its =
     \<lparr>calcium = py_any (map (\<lambda>item. calcium (fi_containsMicronutrients item)) its),
      iron = py_any (map (\<lambda>item. iron (fi_containsMicronutrients item)) its),
      folicAcid = py_any (map (\<lambda>item. folicAcid (fi_containsMicronutrients item)) its),
      protein = py_any (map (\<lambda>item. protein (fi_containsMicronutrients item)) its),
      vitaminD = Some (py_any (map (\<lambda>item. truthy (vitaminD (fi_containsMicronutrients item)))
                    (filter (\<lambda>item. truthy (vitaminD (fi_containsMicronutrients item))) its))),
      omega3 = Some (py_any (map (\<lambda>item. truthy (omega3 (fi_containsMicronutrients item)))
                    (filter (\<lambda>item. truthy (omega3 (fi_containsMicronutrients item))) its))),
      fiber = Some (py_any (map (\<lambda>item. truthy (fiber (fi_containsMicronutrients item)))
                    (filter (\<lambda>item. truthy (fiber (fi_containsMicronutrients item))) its)))\<rparr>"

subsection \<open>\<open>_map_meal_type_to_key\<close>\<close>

text \<open>The dict literal as an association list; \<open>mapping.get(meal_type, 'breakfast')\<close>.\<close>

definition meal_type_mapping :: "(string \<times> string) list" where
  "meal_type_mapping =
     [(''Breakfast'', ''breakfast''),
      (''Snack 1'', ''snack1''),
      (''Lunch'', ''lunch''),
      (''Snack 2'', ''snack2''),
      (''Dinner'', ''dinner'')]"

definition map_meal_type_to_key :: "string \<Rightarrow> string" where
  "map_meal_type_to_key meal_type =
     (case map_of meal_type_mapping meal_type of None \<Rightarrow> ''breakfast'' | Some k \<Rightarrow> k)"

subsection \<open>Attribute access on DayMeals by name\<close>

text \<open>
  \<open>getattr(meals, name)\<close> and \<open>setattr(meals, name, meal)\<close>. Every call site passes one of
  the five field names (a literal of the fixed list, or a result of
  \<open>_map_meal_type_to_key\<close>); for any other name Python raises AttributeError, a case no
  call reaches, and the model then reads \<open>None\<close> and leaves the object unchanged.
\<close>

definition meal_attrs :: "string list" where
  "meal_attrs = [''breakfast'', ''snack1'', ''lunch'', ''snack2'', ''dinner'']"

definition getattr_meals :: "DayMeals \<Rightarrow> string \<Rightarrow> Meal option" where
  "getattr_meals ms attr =
     (if attr = ''breakfast'' then breakfast ms
      else if attr = ''snack1'' then snack1 ms
      else if attr = ''lunch'' then lunch ms
      else if attr = ''snack2'' then snack2 ms
      else if attr = ''dinner'' then dinner ms
      else None)"

definition setattr_meals :: "DayMeals \<Rightarrow> string \<Rightarrow> Meal option \<Rightarrow> DayMeals" where
  "setattr_meals ms attr v =
     (if attr = ''breakfast'' then ms\<lparr>breakfast := v\<rparr>
      else if attr = ''snack1'' then ms\<lparr>snack1 := v\<rparr>
      else if attr = ''lunch'' then ms\<lparr>lunch := v\<rparr>
      else if attr = ''snack2'' then ms\<lparr>snack2 := v\<rparr>
      else if attr = ''dinner'' then ms\<lparr>dinner := v\<rparr>
      else ms)"

subsection \<open>\<open>_calculate_daily_summary\<close>\<close>

text \<open>
  The local dict \<open>coverage\<close> has one entry per core nutrient, each with the list \<open>meals\<close>
  and the flag \<open>covered\<close>; the loop over the five attribute names appends the name and
  sets the flag for every nutrient the meal's aggregate has. A \<open>Meal\<close> object is always
  truthy, so \<open>if meal\<close> tests for \<open>None\<close>.
\<close>

record cov_entry =
  cov_meals :: "string list"
  cov_covered :: bool

record coverage =
  cov_calcium :: cov_entry
  cov_iron :: cov_entry
  cov_folicAcid :: cov_entry
  cov_protein :: cov_entry

definition coverage_init :: coverage where
  "coverage_init =
     \<lparr>cov_calcium = \<lparr>cov_meals = [], cov_covered = False\<rparr>,
      cov_iron = \<lparr>cov_meals = [], cov_covered = False\<rparr>,
      cov_folicAcid = \<lparr>cov_meals = [], cov_covered = False\<rparr>,
      cov_protein = \<lparr>cov_meals = [], cov_covered = False\<rparr>\<rparr>"

definition mark :: "bool \<Rightarrow> string \<Rightarrow> cov_entry \<Rightarrow> cov_entry" where
  "mark flag meal_attr e =
     (if flag then \<lparr>cov_meals = cov_meals e @ [meal_attr], cov_covered = True\<rparr> else e)"

definition summary_step :: "DayMeals \<Rightarrow> string \<Rightarrow> coverage \<times> bool \<Rightarrow> coverage \<times> bool" where
  "summary_step ms meal_attr acc =
     (case getattr_meals ms meal_attr of
        None \<Rightarrow> acc
      | Some meal \<Rightarrow>
          (let c = fst acc; has_warnings = snd acc; mp = m_containsMicronutrients meal in
           (\<lparr>cov_calcium = mark (calcium mp) meal_attr (cov_calcium c),
             cov_iron = mark (iron mp) meal_attr (cov_iron c),
             cov_folicAcid = mark (folicAcid mp) meal_attr (cov_folicAcid c),
             cov_protein = mark (protein mp) meal_attr (cov_protein c)\<rparr>,
            (if py_any (map fi_hasWarnings (m_items meal)) then True else has_warnings))))"

definition get_status :: "bool \<Rightarrow> nat \<Rightarrow> string" where
  "get_status cov meal_count =
     (if \<not> cov then ''missing'' else if meal_count \<ge> 2 then ''good'' else ''moderate'')"

definition nutrient_status :: "cov_entry \<Rightarrow> NutrientStatus" where
  "nutrient_status e =
     \<lparr>covered = cov_covered e,
      mealsCovered = cov_meals e,
      status = get_status (cov_covered e) (length (cov_meals e))\<rparr>"

definition calculate_daily_summary :: "DayMeals \<Rightarrow> DailySummary" where
  "calculate_daily_summary ms =
     (let acc = fold (summary_step ms) meal_attrs (coverage_init, False);
          c = fst acc;
          has_warnings = snd acc;
          missing_nutrients =
            (if \<not> cov_covered (cov_calcium c) then [''Calcium''] else [])
            @ (if \<not> cov_covered (cov_iron c) then [''Iron''] else [])
            @ (if \<not> cov_covered (cov_folicAcid c) then [''Folic Acid''] else [])
            @ (if \<not> cov_covered (cov_protein c) then [''Protein''] else [])
      in \<lparr>ds_calcium = nutrient_status (cov_calcium c),
          ds_iron = nutrient_status (cov_iron c),
          ds_folicAcid = nutrient_status (cov_folicAcid c),
          ds_protein = nutrient_status (cov_protein c),
          ds_hasWarnings = has_warnings,
          missingNutrients = missing_nutrients\<rparr>)"

section \<open>The storage collaborator\<close>

text \<open>
  The service reaches PostgreSQL through \<open>execute_query\<close>, which runs one statement,
  commits and returns the rows as dicts. The tables are lists of rows; each statement the
  service issues is a function on the tables. Only the columns the statements name are
  modelled. The schema is not part of the repository: the one constraint the model knows
  is the conflict target \<open>(user_id, log_date, meal_type)\<close> of the \<open>INSERT ... ON CONFLICT\<close>
  statement, so no statement of the model fails.

  Dates are day numbers (\<open>date.toordinal()\<close>), ordered as the \<open>DATE\<close> column is.
  The storage assigns the primary keys of inserted rows; \<open>gen\<close>, a parameter of every
  inserting operation, stands for that column default: from the keys in use it returns
  the new key. \<open>now\<close> is the value of \<open>NOW()\<close>.
\<close>

type_synonym date = nat

record meal_row =
  meals_id :: string
  user_id :: string
  log_date :: date
  day_of_week :: string
  meal_type :: string
  meal_notes :: "string option"
  updated_at :: nat

record meal_item_row =
  meal_items_id :: string
  meal_id :: string
  food_id :: string
  sort_order :: int

record nutrient_row =
  nutrients_id :: string
  nutrient_name :: string

record food_nutrient_row =
  fn_food_id :: string
  nutrient_id :: string
  is_present :: bool

record storage =
  foods :: "food_row list"
  meals :: "meal_row list"
  meal_items :: "meal_item_row list"
  nutrients :: "nutrient_row list"
  food_nutrients :: "food_nutrient_row list"

subsection \<open>The header upsert\<close>

text \<open>
  \<open>INSERT INTO meals (user_id, log_date, day_of_week, meal_type) VALUES (...)
  ON CONFLICT (user_id, log_date, meal_type)
  DO UPDATE SET day_of_week = EXCLUDED.day_of_week, updated_at = NOW() RETURNING id\<close>.
  A row with the same key is updated in place and its id returned; otherwise a row with a
  generated id is appended (\<open>notes\<close> is not among the inserted columns and is NULL).
\<close>

definition conflict :: "string \<Rightarrow> date \<Rightarrow> string \<Rightarrow> meal_row \<Rightarrow> bool" where
  "conflict u d t r = (user_id r = u \<and> log_date r = d \<and> meal_type r = t)"

definition insert_meal_on_conflict ::
  "(string list \<Rightarrow> string) \<Rightarrow> nat \<Rightarrow> string \<Rightarrow> date \<Rightarrow> string \<Rightarrow> string \<Rightarrow> storage
     \<Rightarrow> storage \<times> string" where
  "insert_meal_on_conflict gen now u d dow t db =
     (case find (conflict u d t) (meals db) of
        Some r0 \<Rightarrow>
          (db\<lparr>meals := map (\<lambda>r. if conflict u d t r
                                 then r\<lparr>day_of_week := dow, updated_at := now\<rparr> else r)
                           (meals db)\<rparr>,
           meals_id r0)
      | None \<Rightarrow>
          (let new_id = gen (map meals_id (meals db)) in
           (db\<lparr>meals := meals db @
                  [\<lparr>meals_id = new_id, user_id = u, log_date = d, day_of_week = dow,
                    meal_type = t, meal_notes = None, updated_at = now\<rparr>]\<rparr>,
            new_id)))"

subsection \<open>Statements on \<open>meal_items\<close>\<close>

text \<open>\<open>DELETE FROM meal_items WHERE meal_id = %s\<close>\<close>

definition delete_meal_items :: "string \<Rightarrow> storage \<Rightarrow> storage" where
  "delete_meal_items mid db =
     db\<lparr>meal_items := filter (\<lambda>r. meal_id r \<noteq> mid) (meal_items db)\<rparr>"

text \<open>\<open>INSERT INTO meal_items (meal_id, food_id, sort_order) VALUES (%s, %s, %s)\<close>\<close>

definition insert_meal_item ::
  "(string list \<Rightarrow> string) \<Rightarrow> string \<Rightarrow> string \<Rightarrow> int \<Rightarrow> storage \<Rightarrow> storage" where
  "insert_meal_item gen mid fid idx db =
     db\<lparr>meal_items := meal_items db @
          [\<lparr>meal_items_id = gen (map meal_items_id (meal_items db)),
            meal_id = mid, food_id = fid, sort_order = idx\<rparr>]\<rparr>"

text \<open>
  \<open>SELECT COALESCE(MAX(sort_order), -1) + 1 as next_order FROM meal_items WHERE meal_id = %s\<close>:
  \<open>MAX\<close> over no rows is NULL.
\<close>

fun sql_max :: "int list \<Rightarrow> int option" where
  "sql_max [] = None"
| "sql_max (x # xs) = Some (fold max xs x)"

definition next_order :: "string \<Rightarrow> storage \<Rightarrow> int" where
  "next_order mid db =
     (case sql_max (map sort_order (filter (\<lambda>r. meal_id r = mid) (meal_items db))) of
        None \<Rightarrow> -1 | Some m \<Rightarrow> m) + 1"

section \<open>Meal operations of MealService\<close>

subsection \<open>\<open>upsert_meal\<close>\<close>

text \<open>
  The list \<open>queries\<close> the method builds first is never executed. The header statement
  runs, then the delete, then one insert per element of \<open>enumerate(food_item_ids)\<close>,
  each in its own \<open>execute_query\<close>. The method returns nothing; the model returns the
  storage it leaves.
\<close>

definition upsert_meal ::
  "(string list \<Rightarrow> string) \<Rightarrow> nat \<Rightarrow> string \<Rightarrow> date \<Rightarrow> string \<Rightarrow> string \<Rightarrow> string list
     \<Rightarrow> storage \<Rightarrow> storage" where
  "upsert_meal gen now u d dow t food_item_ids db =
     (let meal_result = insert_meal_on_conflict gen now u d dow t db;
          mid = snd meal_result;
          db2 = delete_meal_items mid (fst meal_result)
      in if food_item_ids \<noteq> []
         then fold (\<lambda>(idx, food_item_id). insert_meal_item gen mid food_item_id (int idx))
                (List.enumerate 0 food_item_ids) db2
         else db2)"

subsection \<open>\<open>add_meal_item\<close>\<close>

definition add_meal_item ::
  "(string list \<Rightarrow> string) \<Rightarrow> nat \<Rightarrow> string \<Rightarrow> date \<Rightarrow> string \<Rightarrow> string \<Rightarrow> string
     \<Rightarrow> storage \<Rightarrow> storage" where
  "add_meal_item gen now u d dow t food_item_id db =
     (let meal_result = insert_meal_on_conflict gen now u d dow t db;
          mid = snd meal_result;
          db1 = fst meal_result
      in insert_meal_item gen mid food_item_id (next_order mid db1) db1)"

subsection \<open>\<open>remove_meal_item\<close>\<close>

text \<open>\<open>DELETE FROM meal_items WHERE meal_id = %s AND food_id = %s\<close>\<close>

definition remove_meal_item :: "string \<Rightarrow> string \<Rightarrow> storage \<Rightarrow> storage" where
  "remove_meal_item mid food_item_id db =
     db\<lparr>meal_items := filter (\<lambda>r. \<not> (meal_id r = mid \<and> food_id r = food_item_id))
                          (meal_items db)\<rparr>"

section \<open>Food operations of MealService\<close>

subsection \<open>\<open>_get_food_nutrients_map\<close>\<close>

text \<open>
  One query joins \<open>food_nutrients\<close> to \<open>nutrients\<close> for the given food ids and keeps the
  rows with \<open>is_present = true\<close>; the loop collects the nutrient names per food id in a
  dict. No query is issued for an empty id list.
\<close>

definition food_nutrients_query :: "storage \<Rightarrow> string list \<Rightarrow> (string \<times> string) list" where
  "food_nutrients_query db food_ids =
     concat (map (\<lambda>fn. map (\<lambda>n. (fn_food_id fn, nutrient_name n))
                          (filter (\<lambda>n. nutrient_id fn = nutrients_id n) (nutrients db)))
                 (filter (\<lambda>fn. fn_food_id fn \<in> set food_ids \<and> is_present fn)
                         (food_nutrients db)))"

definition get_food_nutrients_map :: "storage \<Rightarrow> string list \<Rightarrow> (string \<rightharpoonup> string list)" where
  "get_food_nutrients_map db food_ids =
     (if food_ids = [] then Map.empty
      else fold (\<lambda>row nutrients_map.
                   nutrients_map(fst row \<mapsto>
                     (case nutrients_map (fst row) of None \<Rightarrow> [] | Some names \<Rightarrow> names)
                     @ [snd row]))
             (food_nutrients_query db food_ids) Map.empty)"

text \<open>\<open>nutrients_map.get(key, [])\<close>\<close>

definition get_or_empty :: "(string \<rightharpoonup> string list) \<Rightarrow> string \<Rightarrow> string list" where
  "get_or_empty nutrients_map k = (case nutrients_map k of None \<Rightarrow> [] | Some names \<Rightarrow> names)"

subsection \<open>\<open>_insert_nutrient_mappings\<close>\<close>

text \<open>
  \<open>INSERT INTO food_nutrients (food_id, nutrient_id, is_present)
  SELECT %s, id, true FROM nutrients WHERE name IN (...)\<close>, issued only when at least one
  flag of the input is truthy.
\<close>

definition nutrient_names :: "MicronutrientPresence \<Rightarrow> string list" where
  "nutrient_names micronutrients =
     (if calcium micronutrients then [''calcium''] else [])
     @ (if iron micronutrients then [''iron''] else [])
     @ (if folicAcid micronutrients then [''folate''] else [])
     @ (if protein micronutrients then [''protein''] else [])
     @ (if truthy (vitaminD micronutrients) then [''vitamin_d''] else [])
     @ (if truthy (omega3 micronutrients) then [''dha''] else [])
     @ (if truthy (fiber micronutrients) then [''fiber''] else [])"

definition insert_nutrient_mappings :: "string \<Rightarrow> MicronutrientPresence \<Rightarrow> storage \<Rightarrow> storage" where
  "insert_nutrient_mappings fid micronutrients db =
     (let names = nutrient_names micronutrients in
      if names \<noteq> []
      then db\<lparr>food_nutrients := food_nutrients db @
                map (\<lambda>n. \<lparr>fn_food_id = fid, nutrient_id = nutrients_id n, is_present = True\<rparr>)
                    (filter (\<lambda>n. nutrient_name n \<in> set names) (nutrients db))\<rparr>
      else db)"

subsection \<open>\<open>create_food\<close>\<close>

text \<open>
  \<open>INSERT INTO foods (...) VALUES (...) RETURNING *\<close> gives the stored row with its
  generated id; the nutrient mappings are inserted; the returned row is mapped by
  \<open>_map_food_item(result)\<close>, with no second argument.
\<close>

definition create_food ::
  "(string list \<Rightarrow> string) \<Rightarrow> FoodItemCreate \<Rightarrow> storage \<Rightarrow> storage \<times> FoodItem" where
  "create_food gen food db =
     (let result =
            \<lparr>row_id = gen (map row_id (foods db)),
             row_name = fc_name food,
             row_portion = fc_portion food,
             row_macro_category = fc_macroCategory food,
             row_rainbow_color = fc_rainbowColor food,
             row_phytonutrient_focus = fc_phytonutrientFocus food,
             row_is_safe_pregnancy = Val (\<not> fc_hasWarnings food),
             row_warning_message = fc_warningMessage food,
             row_warning_type = fc_warningType food,
             row_tags = fc_tags food,
             row_description = fc_description food\<rparr>;
          db1 = db\<lparr>foods := foods db @ [result]\<rparr>;
          db2 = insert_nutrient_mappings (row_id result) (fc_containsMicronutrients food) db1
      in (db2, map_food_item result None))"

subsection \<open>\<open>get_food_by_id\<close>\<close>

definition get_food_by_id :: "storage \<Rightarrow> string \<Rightarrow> FoodItem option" where
  "get_food_by_id db fid =
     (case find (\<lambda>f. row_id f = fid) (foods db) of
        None \<Rightarrow> None
      | Some result \<Rightarrow>
          Some (map_food_item result
                  (Some (get_or_empty (get_food_nutrients_map db [row_id result]) (row_id result)))))"

section \<open>The day reconstructor: \<open>get_meals_by_date_range\<close>\<close>

subsection \<open>The range query\<close>

text \<open>
  \<open>SELECT m.id as meal_id, m.log_date as meal_date, m.day_of_week, m.meal_type,
  m.notes as meal_notes, mi.id as meal_item_id, mi.sort_order, f.*
  FROM meals m LEFT JOIN meal_items mi ON m.id = mi.meal_id
  LEFT JOIN foods f ON mi.food_id = f.id
  WHERE m.user_id = %s AND m.log_date >= %s AND m.log_date <= %s
  ORDER BY m.log_date, m.meal_type, mi.sort_order\<close>.
  A left join keeps a meal without items (item and food columns NULL) and an item without
  food (food columns NULL). The columns of \<open>f.*\<close> are one optional food row: \<open>row['id']\<close> is
  the food's id, NULL when no food was joined. The order is ascending on the three keys
  with NULL last; rows equal on all three keep their relative order.
\<close>

record range_row =
  r_meal_id :: string
  r_meal_date :: date
  r_day_of_week :: string
  r_meal_type :: string
  r_meal_notes :: "string option"
  r_meal_item_id :: "string option"
  r_sort_order :: "int option"
  r_food :: "food_row option"

definition in_range :: "string \<Rightarrow> date \<Rightarrow> date \<Rightarrow> meal_row \<Rightarrow> bool" where
  "in_range u start_date end_date m =
     (user_id m = u \<and> log_date m \<ge> start_date \<and> log_date m \<le> end_date)"

definition joined :: "meal_row \<Rightarrow> meal_item_row option \<Rightarrow> food_row option \<Rightarrow> range_row" where
  "joined m mi f =
     \<lparr>r_meal_id = meals_id m,
      r_meal_date = log_date m,
      r_day_of_week = day_of_week m,
      r_meal_type = meal_type m,
      r_meal_notes = meal_notes m,
      r_meal_item_id = map_option meal_items_id mi,
      r_sort_order = map_option sort_order mi,
      r_food = f\<rparr>"

definition join_foods :: "storage \<Rightarrow> meal_row \<Rightarrow> meal_item_row \<Rightarrow> range_row list" where
  "join_foods db m mi =
     (case filter (\<lambda>f. food_id mi = row_id f) (foods db) of
        [] \<Rightarrow> [joined m (Some mi) None]
      | fs \<Rightarrow> map (\<lambda>f. joined m (Some mi) (Some f)) fs)"

definition join_items :: "storage \<Rightarrow> meal_row \<Rightarrow> range_row list" where
  "join_items db m =
     (case filter (\<lambda>mi. meals_id m = meal_id mi) (meal_items db) of
        [] \<Rightarrow> [joined m None None]
      | mis \<Rightarrow> concat (map (join_foods db m) mis))"

definition order_by :: "range_row \<Rightarrow> date \<times> string \<times> nat \<times> int" where
  "order_by r =
     (r_meal_date r, r_meal_type r,
      (case r_sort_order r of None \<Rightarrow> (1, 0) | Some idx \<Rightarrow> (0, idx)))"

definition range_query :: "storage \<Rightarrow> string \<Rightarrow> date \<Rightarrow> date \<Rightarrow> range_row list" where
  "range_query db u start_date end_date =
     sort_key order_by
       (concat (map (join_items db) (filter (in_range u start_date end_date) (meals db))))"

subsection \<open>Grouping the rows\<close>

text \<open>
  \<open>day_map\<close> is a Python dict, which keeps its keys in insertion order: an association
  list where storing under a present key replaces the value in place and storing under a
  new key appends.
\<close>

fun dict_set :: "'k \<Rightarrow> 'v \<Rightarrow> ('k \<times> 'v) list \<Rightarrow> ('k \<times> 'v) list" where
  "dict_set k v [] = [(k, v)]"
| "dict_set k v ((k', v') # kvs) =
     (if k' = k then (k, v) # kvs else (k', v') # dict_set k v kvs)"

definition new_day :: "string \<Rightarrow> string \<Rightarrow> DayData" where
  "new_day date_key dow =
     \<lparr>dd_id = date_key,
      dd_date = date_key,
      dayOfWeek = dow,
      dd_meals = DayMeals_default,
      dailySummary =
        \<lparr>ds_calcium = \<lparr>covered = False, mealsCovered = [], status = ''missing''\<rparr>,
         ds_iron = \<lparr>covered = False, mealsCovered = [], status = ''missing''\<rparr>,
         ds_folicAcid = \<lparr>covered = False, mealsCovered = [], status = ''missing''\<rparr>,
         ds_protein = \<lparr>covered = False, mealsCovered = [], status = ''missing''\<rparr>,
         ds_hasWarnings = False,
         missingNutrients = []\<rparr>\<rparr>"

text \<open>
  One iteration of the loop over the rows. The source stores a new \<open>DayData\<close> (a new
  \<open>Meal\<close>) when the key (the slot) has none and then mutates the stored object; the model
  takes the stored object or the new one, updates it and stores it under the same key,
  which is the same dict and the same object afterwards. \<open>str\<close> is Python's \<open>str\<close> on
  the value of the date column. \<open>if row['id']\<close> is false for NULL and for the empty
  string.
\<close>

definition process_row ::
  "(date \<Rightarrow> string) \<Rightarrow> (string \<rightharpoonup> string list) \<Rightarrow> range_row
     \<Rightarrow> (string \<times> DayData) list \<Rightarrow> (string \<times> DayData) list" where
  "process_row str nutrients_map row day_map =
     (let date_key = str (r_meal_date row);
          day_data = (case map_of day_map date_key of
                        None \<Rightarrow> new_day date_key (r_day_of_week row)
                      | Some d \<Rightarrow> d);
          meal_type_key = map_meal_type_to_key (r_meal_type row);
          current_meal = (case getattr_meals (dd_meals day_data) meal_type_key of
                            None \<Rightarrow> \<lparr>m_id = r_meal_id row,
                                      m_type = r_meal_type row,
                                      m_items = [],
                                      m_containsMicronutrients = MicronutrientPresence_default,
                                      m_notes = r_meal_notes row\<rparr>
                          | Some meal \<Rightarrow> meal);
          current_meal' = (case r_food row of
                             None \<Rightarrow> current_meal
                           | Some f \<Rightarrow>
                               if row_id f \<noteq> []
                               then current_meal\<lparr>m_items := m_items current_meal @
                                      [map_food_item f (Some (get_or_empty nutrients_map (row_id f)))]\<rparr>
                               else current_meal)
      in dict_set date_key
           (day_data\<lparr>dd_meals := setattr_meals (dd_meals day_data) meal_type_key (Some current_meal')\<rparr>)
           day_map)"

subsection \<open>The second pass and the result\<close>

definition aggregate_meal :: "string \<Rightarrow> DayMeals \<Rightarrow> DayMeals" where
  "aggregate_meal meal_attr ms =
     (case getattr_meals ms meal_attr of
        None \<Rightarrow> ms
      | Some meal \<Rightarrow>
          setattr_meals ms meal_attr
            (Some (meal\<lparr>m_containsMicronutrients := aggregate_micronutrients (m_items meal)\<rparr>)))"

definition finish_day :: "DayData \<Rightarrow> DayData" where
  "finish_day day_data =
     (let ms = fold aggregate_meal meal_attrs (dd_meals day_data)
      in day_data\<lparr>dd_meals := ms, dailySummary := calculate_daily_summary ms\<rparr>)"

text \<open>
  \<open>food_ids = list(set(row['id'] for row in results if row['id']))\<close>: the distinct truthy
  food ids of the rows (their order does not matter to the nutrient query).
\<close>

definition row_food_ids :: "range_row list \<Rightarrow> string list" where
  "row_food_ids results =
     remdups (concat (map (\<lambda>row. case r_food row of
                                    None \<Rightarrow> []
                                  | Some f \<Rightarrow> if row_id f \<noteq> [] then [row_id f] else [])
                          results))"

definition get_meals_by_date_range ::
  "(date \<Rightarrow> string) \<Rightarrow> storage \<Rightarrow> string \<Rightarrow> date \<Rightarrow> date \<Rightarrow> DayData list" where
  "get_meals_by_date_range str db u start_date end_date =
     (let results = range_query db u start_date end_date;
          nutrients_map = get_food_nutrients_map db (row_food_ids results);
          day_map = fold (process_row str nutrients_map) results []
      in map (\<lambda>kv. finish_day (snd kv)) day_map)"

section \<open>Notions used to state the properties\<close>

subsection \<open>Daily summary\<close>

text \<open>
  A slot covers a nutrient when it holds a meal whose aggregate flag for the nutrient is
  true; the covering slots are listed in the fixed slot order. \<open>status_as_specified\<close>
  is the specified relation between a nutrient's status record and the day's meals, and
  \<open>missing_as_specified\<close> the specified list of missing display names.
\<close>

definition slot_covers :: "(MicronutrientPresence \<Rightarrow> bool) \<Rightarrow> DayMeals \<Rightarrow> string \<Rightarrow> bool" where
  "slot_covers flag ms attr =
     (case getattr_meals ms attr of
        None \<Rightarrow> False
      | Some meal \<Rightarrow> flag (m_containsMicronutrients meal))"

definition covering_slots :: "(MicronutrientPresence \<Rightarrow> bool) \<Rightarrow> DayMeals \<Rightarrow> string list" where
  "covering_slots flag ms = filter (slot_covers flag ms) meal_attrs"

definition status_as_specified ::
  "(MicronutrientPresence \<Rightarrow> bool) \<Rightarrow> DayMeals \<Rightarrow> NutrientStatus \<Rightarrow> bool" where
  "status_as_specified flag ms s =
     (covered s = (\<exists>attr \<in> set meal_attrs. slot_covers flag ms attr)
      \<and> mealsCovered s = covering_slots flag ms
      \<and> (status s = ''missing'') = (\<not> covered s)
      \<and> (status s = ''good'') = (length (covering_slots flag ms) \<ge> 2)
      \<and> (status s = ''moderate'') = (length (covering_slots flag ms) = 1))"

definition missing_as_specified :: "DayMeals \<Rightarrow> string list" where
  "missing_as_specified ms =
     map fst (filter (\<lambda>(name, flag). \<not> (\<exists>attr \<in> set meal_attrs. slot_covers flag ms attr))
       [(''Calcium'', calcium), (''Iron'', iron), (''Folic Acid'', folicAcid),
        (''Protein'', protein)])"

subsection \<open>Per-meal aggregation\<close>

text \<open>The definite (not \<open>None\<close>) values of an optional flag over the items of a meal.\<close>

definition definite_values ::
  "(MicronutrientPresence \<Rightarrow> bool option) \<Rightarrow> FoodItem list \<Rightarrow> bool list" where
  "definite_values flag its =
     List.map_filter (\<lambda>item. flag (fi_containsMicronutrients item)) its"

subsection \<open>Slots in storage\<close>

text \<open>
  The item rows of a slot as stored, and in the order the range query reads them
  (\<open>ORDER BY mi.sort_order\<close>).
\<close>

definition slot_rows :: "string \<Rightarrow> storage \<Rightarrow> meal_item_row list" where
  "slot_rows mid db = filter (\<lambda>r. meal_id r = mid) (meal_items db)"

definition slot_items :: "string \<Rightarrow> storage \<Rightarrow> meal_item_row list" where
  "slot_items mid db = sort_key sort_order (slot_rows mid db)"

subsection \<open>Nutrient mappings\<close>

text \<open>The nutrient names a \<open>MicronutrientPresence\<close> input selects for storage.\<close>

definition selected :: "MicronutrientPresence \<Rightarrow> string \<Rightarrow> bool" where
  "selected mp nm =
     (nm = ''calcium'' \<and> calcium mp \<or> nm = ''iron'' \<and> iron mp
      \<or> nm = ''folate'' \<and> folicAcid mp \<or> nm = ''protein'' \<and> protein mp
      \<or> nm = ''vitamin_d'' \<and> vitaminD mp = Some True
      \<or> nm = ''dha'' \<and> omega3 mp = Some True
      \<or> nm = ''fiber'' \<and> fiber mp = Some True)"

subsection \<open>Grouping invariant\<close>

text \<open>Every day record of the dict carries its key as id and date.\<close>

definition keyed :: "(string \<times> DayData) list \<Rightarrow> bool" where
  "keyed dm = (\<forall>(k, d) \<in> set dm. dd_date d = k \<and> dd_id d = k)"

section \<open>Example data\<close>

text \<open>
  A small database: user \<open>u1\<close> has breakfast and lunch on day 5 and dinner on day 3,
  user \<open>u2\<close> has a breakfast on day 4. The key generator and the date printer of the
  examples are unary.
\<close>

definition ex_gen :: "string list \<Rightarrow> string" where
  "ex_gen used = replicate (Suc (length used)) (CHR ''k'')"

definition ex_str :: "date \<Rightarrow> string" where
  "ex_str d = replicate d (CHR ''d'')"

definition ex_oatmeal :: food_row where
  "ex_oatmeal =
     \<lparr>row_id = ''f1'', row_name = ''Oatmeal'', row_portion = Some ''1 bowl'',
      row_macro_category = None, row_rainbow_color = None, row_phytonutrient_focus = None,
      row_is_safe_pregnancy = Val True, row_warning_message = None, row_warning_type = None,
      row_tags = None, row_description = None\<rparr>"

definition ex_spinach :: food_row where
  "ex_spinach =
     \<lparr>row_id = ''f2'', row_name = ''Spinach Salad'', row_portion = None,
      row_macro_category = None, row_rainbow_color = Some ''green'',
      row_phytonutrient_focus = None,
      row_is_safe_pregnancy = Val True, row_warning_message = Some [], row_warning_type = None,
      row_tags = None, row_description = None\<rparr>"

definition ex_brie :: food_row where
  "ex_brie =
     \<lparr>row_id = ''f3'', row_name = ''Brie'', row_portion = None,
      row_macro_category = None, row_rainbow_color = None, row_phytonutrient_focus = None,
      row_is_safe_pregnancy = Val True, row_warning_message = Some ''Unpasteurised'',
      row_warning_type = Some ''listeria'', row_tags = None, row_description = None\<rparr>"

definition ex_db :: storage where
  "ex_db =
     \<lparr>foods = [ex_oatmeal, ex_spinach, ex_brie],
      meals =
        [\<lparr>meals_id = ''m1'', user_id = ''u1'', log_date = 5, day_of_week = ''Friday'',
          meal_type = ''Breakfast'', meal_notes = None, updated_at = 0\<rparr>,
         \<lparr>meals_id = ''m2'', user_id = ''u1'', log_date = 5, day_of_week = ''Friday'',
          meal_type = ''Lunch'', meal_notes = None, updated_at = 0\<rparr>,
         \<lparr>meals_id = ''m3'', user_id = ''u1'', log_date = 3, day_of_week = ''Wednesday'',
          meal_type = ''Dinner'', meal_notes = None, updated_at = 0\<rparr>,
         \<lparr>meals_id = ''m4'', user_id = ''u2'', log_date = 4, day_of_week = ''Thursday'',
          meal_type = ''Breakfast'', meal_notes = None, updated_at = 0\<rparr>],
      meal_items =
        [\<lparr>meal_items_id = ''i1'', meal_id = ''m1'', food_id = ''f1'', sort_order = 0\<rparr>,
         \<lparr>meal_items_id = ''i2'', meal_id = ''m2'', food_id = ''f2'', sort_order = 0\<rparr>],
      nutrients =
        [\<lparr>nutrients_id = ''n1'', nutrient_name = ''calcium''\<rparr>,
         \<lparr>nutrients_id = ''n2'', nutrient_name = ''iron''\<rparr>,
         \<lparr>nutrients_id = ''n3'', nutrient_name = ''folate''\<rparr>],
      food_nutrients =
        [\<lparr>fn_food_id = ''f1'', nutrient_id = ''n2'', is_present = True\<rparr>,
         \<lparr>fn_food_id = ''f2'', nutrient_id = ''n2'', is_present = True\<rparr>,
         \<lparr>fn_food_id = ''f2'', nutrient_id = ''n1'', is_present = True\<rparr>]\<rparr>"

text \<open>
  The day of the specification's example: oatmeal (iron) for breakfast, spinach salad
  (iron and calcium) for lunch.
\<close>

definition ex_breakfast :: Meal where
  "ex_breakfast =
     \<lparr>m_id = ''m1'', m_type = ''Breakfast'',
      m_items = [map_food_item ex_oatmeal (Some [''iron''])],
      m_containsMicronutrients =
        aggregate_micronutrients [map_food_item ex_oatmeal (Some [''iron''])],
      m_notes = None\<rparr>"

definition ex_lunch :: Meal where
  "ex_lunch =
     \<lparr>m_id = ''m2'', m_type = ''Lunch'',
      m_items = [map_food_item ex_spinach (Some [''iron'', ''calcium''])],
      m_containsMicronutrients =
        aggregate_micronutrients [map_food_item ex_spinach (Some [''iron'', ''calcium''])],
      m_notes = None\<rparr>"

definition ex_day :: DayMeals where
  "ex_day = DayMeals_default\<lparr>breakfast := Some ex_breakfast, lunch := Some ex_lunch\<rparr>"

definition ex_food :: FoodItemCreate where
  "ex_food =
     \<lparr>fc_name = ''Yoghurt'', fc_portion = None, fc_macroCategory = None,
      fc_rainbowColor = None, fc_phytonutrientFocus = None,
      fc_containsMicronutrients =
        \<lparr>calcium = True, iron = False, folicAcid = False, protein = True,
         vitaminD = Some True, omega3 = None, fiber = Some False\<rparr>,
      fc_hasWarnings = False, fc_warningMessage = None, fc_warningType = None,
      fc_tags = None, fc_description = None\<rparr>"

text \<open>
  The same food added twice to a new dinner slot of day 7, then removed, then another
  food added.
\<close>

definition ex_twice :: storage where
  "ex_twice =
     add_meal_item ex_gen 8 ''u1'' 7 ''Sun'' ''Dinner'' ''f1''
       (add_meal_item ex_gen 7 ''u1'' 7 ''Sun'' ''Dinner'' ''f1'' ex_db)"

definition ex_twice_removed :: storage where
  "ex_twice_removed = remove_meal_item ''kkkkk'' ''f1'' ex_twice"

definition ex_twice_after :: storage where
  "ex_twice_after =
     add_meal_item ex_gen 9 ''u1'' 7 ''Sun'' ''Dinner'' ''f3'' ex_twice_removed"

section \<open>Food catalog mapper\<close>

text \<open>
  C4. For every food row and nutrient-name list \<open>N\<close>, the mapped item's flags for
  calcium, iron and protein are membership of \<open>calcium\<close>, \<open>iron\<close> and \<open>protein\<close> in \<open>N\<close>,
  the folic acid flag is membership of \<open>folate\<close>, and the flags for vitamin D, omega-3 and
  fiber are \<open>None\<close> when \<open>N\<close> is empty and otherwise membership of \<open>vitamin_d\<close>, \<open>dha\<close> and
  \<open>fiber\<close> in \<open>N\<close> (so \<open>Some False\<close> when the name is not in a non-empty \<open>N\<close>). Omitting
  the list is the same as passing the empty list.
\<close>

theorem map_food_item_flags:
  "calcium (fi_containsMicronutrients (map_food_item row (Some N))) = (''calcium'' \<in> set N)
   \<and> iron (fi_containsMicronutrients (map_food_item row (Some N))) = (''iron'' \<in> set N)
   \<and> protein (fi_containsMicronutrients (map_food_item row (Some N))) = (''protein'' \<in> set N)
   \<and> folicAcid (fi_containsMicronutrients (map_food_item row (Some N))) = (''folate'' \<in> set N)
   \<and> vitaminD (fi_containsMicronutrients (map_food_item row (Some N)))
       = (if N = [] then None else Some (''vitamin_d'' \<in> set N))
   \<and> omega3 (fi_containsMicronutrients (map_food_item row (Some N)))
       = (if N = [] then None else Some (''dha'' \<in> set N))
   \<and> fiber (fi_containsMicronutrients (map_food_item row (Some N)))
       = (if N = [] then None else Some (''fiber'' \<in> set N))
   \<and> map_food_item row None = map_food_item row (Some [])"
  by (simp add: map_food_item_def)

theorem map_food_item_flags_witness:
  "folicAcid (fi_containsMicronutrients (map_food_item ex_oatmeal (Some [''iron'', ''folate''])))
   \<and> \<not> calcium (fi_containsMicronutrients (map_food_item ex_oatmeal (Some [''iron'', ''folate''])))
   \<and> vitaminD (fi_containsMicronutrients (map_food_item ex_oatmeal (Some [''iron'', ''folate'']))) = Some False
   \<and> omega3 (fi_containsMicronutrients (map_food_item ex_oatmeal (Some [''dha'']))) = Some True
   \<and> fiber (fi_containsMicronutrients (map_food_item ex_oatmeal (Some []))) = None"
  using map_food_item_flags [of ex_oatmeal "[''iron'', ''folate'']"]
    map_food_item_flags [of ex_oatmeal "[''dha'']"]
    map_food_item_flags [of ex_oatmeal "[]"]
  by simp

text \<open>
  C9. The mapped item's \<open>hasWarnings\<close> is Python's \<open>not row.get('is_safe_pregnancy', True)
  or bool(row.get('warning_message'))\<close>: it is true when the stored safe flag is false (or
  NULL, which \<open>not\<close> also turns into true) or the stored warning message is a non-empty
  string, and it is false exactly when the food is marked safe (or the column is missing
  from the row, where the default applies) and the message is NULL or empty.
\<close>

theorem map_food_item_hasWarnings:
  "fi_hasWarnings (map_food_item row N)
     = (row_is_safe_pregnancy row = Val False \<or> row_is_safe_pregnancy row = Null
        \<or> (\<exists>msg. row_warning_message row = Some msg \<and> msg \<noteq> []))
   \<and> (\<not> fi_hasWarnings (map_food_item row N))
     = ((row_is_safe_pregnancy row = Val True \<or> row_is_safe_pregnancy row = Absent)
        \<and> (row_warning_message row = None \<or> row_warning_message row = Some []))"
proof -
  have a: "(\<not> truthy (get_default_True c)) = (c = Val False \<or> c = Null)" for c
    by (cases c) auto
  have b: "truthy_str m = (\<exists>msg. m = Some msg \<and> msg \<noteq> [])" for m
    by (cases m) auto
  have c: "(c \<noteq> Val False \<and> c \<noteq> Null) = (c = Val True \<or> c = Absent)" for c :: "bool column"
    by (cases c) auto
  have d: "(\<not> truthy_str m) = (m = None \<or> m = Some [])" for m
    by (cases m) auto
  show ?thesis
    unfolding map_food_item_def Let_def
    apply (simp only: FoodItem.simps a)
    using b c d by (metis (full_types))
qed

theorem map_food_item_hasWarnings_witness:
  "fi_hasWarnings (map_food_item ex_brie None)
   \<and> \<not> fi_hasWarnings (map_food_item ex_oatmeal None)
   \<and> \<not> fi_hasWarnings (map_food_item ex_spinach None)
   \<and> fi_hasWarnings (map_food_item (ex_oatmeal\<lparr>row_is_safe_pregnancy := Val False\<rparr>) None)"
  using map_food_item_hasWarnings [of ex_brie None]
    map_food_item_hasWarnings [of ex_oatmeal None]
    map_food_item_hasWarnings [of ex_spinach None]
    map_food_item_hasWarnings [of "ex_oatmeal\<lparr>row_is_safe_pregnancy := Val False\<rparr>" None]
  by (simp add: ex_brie_def ex_oatmeal_def ex_spinach_def)

section \<open>Slot keys\<close>

text \<open>
  C8. The five stored labels \<open>Breakfast\<close>, \<open>Snack 1\<close>, \<open>Lunch\<close>, \<open>Snack 2\<close>, \<open>Dinner\<close> map
  to the keys \<open>breakfast\<close>, \<open>snack1\<close>, \<open>lunch\<close>, \<open>snack2\<close>, \<open>dinner\<close>; every other label,
  also one that differs only in case or spacing, maps to \<open>breakfast\<close> (the function has no
  error result).
\<close>

theorem map_meal_type_to_key_cases:
  "map_meal_type_to_key ''Breakfast'' = ''breakfast''
   \<and> map_meal_type_to_key ''Snack 1'' = ''snack1''
   \<and> map_meal_type_to_key ''Lunch'' = ''lunch''
   \<and> map_meal_type_to_key ''Snack 2'' = ''snack2''
   \<and> map_meal_type_to_key ''Dinner'' = ''dinner''
   \<and> (label \<notin> {''Breakfast'', ''Snack 1'', ''Lunch'', ''Snack 2'', ''Dinner''}
        \<longrightarrow> map_meal_type_to_key label = ''breakfast'')"
  by (simp add: map_meal_type_to_key_def meal_type_mapping_def)

theorem map_meal_type_to_key_cases_witness:
  "''snack 1'' \<notin> {''Breakfast'', ''Snack 1'', ''Lunch'', ''Snack 2'', ''Dinner''}
   \<and> map_meal_type_to_key ''snack 1'' = ''breakfast''
   \<and> ''Brunch'' \<notin> {''Breakfast'', ''Snack 1'', ''Lunch'', ''Snack 2'', ''Dinner''}
   \<and> map_meal_type_to_key ''Brunch'' = ''breakfast''"
  using map_meal_type_to_key_cases [of "''snack 1''"] map_meal_type_to_key_cases [of "''Brunch''"]
  by simp

lemma map_meal_type_to_key_attr: "map_meal_type_to_key label \<in> set meal_attrs"
  by (auto simp: map_meal_type_to_key_def meal_type_mapping_def meal_attrs_def)

section \<open>Nutrient aggregator\<close>

lemma py_any_Nil: "py_any [] = False"
  by (simp add: py_any_def)

lemma py_any_map: "py_any (map f xs) = (\<exists>x \<in> set xs. f x)"
  by (simp add: py_any_def list_ex_iff)

lemma truthy_iff: "truthy v = (v = Some True)"
  by (cases v) auto

lemma or_definite:
  "py_any (definite_values flag its)
     = (\<exists>item \<in> set its. flag (fi_containsMicronutrients item) = Some True)"
  by (auto simp: py_any_def list_ex_iff definite_values_def map_filter_def)

text \<open>
  C2. For every list of food items, the aggregate flags for calcium, iron, folic acid and
  protein are the disjunction of the items' flags. The aggregate flags for vitamin D,
  omega-3 and fiber are the disjunction over the items' definite values only (items whose
  value is \<open>None\<close> do not take part); they are never \<open>None\<close>, and they are \<open>Some False\<close>
  when every item is unknown.
\<close>

theorem aggregate_micronutrients_or:
  "calcium (aggregate_micronutrients its)
     = (\<exists>item \<in> set its. calcium (fi_containsMicronutrients item))
   \<and> iron (aggregate_micronutrients its)
     = (\<exists>item \<in> set its. iron (fi_containsMicronutrients item))
   \<and> folicAcid (aggregate_micronutrients its)
     = (\<exists>item \<in> set its. folicAcid (fi_containsMicronutrients item))
   \<and> protein (aggregate_micronutrients its)
     = (\<exists>item \<in> set its. protein (fi_containsMicronutrients item))
   \<and> vitaminD (aggregate_micronutrients its) = Some (py_any (definite_values vitaminD its))
   \<and> omega3 (aggregate_micronutrients its) = Some (py_any (definite_values omega3 its))
   \<and> fiber (aggregate_micronutrients its) = Some (py_any (definite_values fiber its))
   \<and> ((\<forall>item \<in> set its. vitaminD (fi_containsMicronutrients item) = None)
        \<longrightarrow> definite_values vitaminD its = []
            \<and> vitaminD (aggregate_micronutrients its) = Some False)
   \<and> ((\<forall>item \<in> set its. omega3 (fi_containsMicronutrients item) = None)
        \<longrightarrow> definite_values omega3 its = []
            \<and> omega3 (aggregate_micronutrients its) = Some False)
   \<and> ((\<forall>item \<in> set its. fiber (fi_containsMicronutrients item) = None)
        \<longrightarrow> definite_values fiber its = []
            \<and> fiber (aggregate_micronutrients its) = Some False)"
proof -
  have none: "(\<forall>item \<in> set its. flag (fi_containsMicronutrients item) = None)
                \<Longrightarrow> definite_values flag its = []" for flag
    by (simp add: definite_values_def map_filter_def filter_empty_conv)
  show ?thesis
    unfolding aggregate_micronutrients_def
    by (auto simp: py_any_map or_definite truthy_iff none py_any_Nil)
qed

theorem aggregate_micronutrients_or_witness:
  "list_all (\<lambda>item. vitaminD (fi_containsMicronutrients item) = None
                      \<and> omega3 (fi_containsMicronutrients item) = None
                      \<and> fiber (fi_containsMicronutrients item) = None)
     [map_food_item ex_oatmeal None, map_food_item ex_brie (Some [])]
   \<and> vitaminD (aggregate_micronutrients
        [map_food_item ex_oatmeal None, map_food_item ex_brie (Some [])]) = Some False
   \<and> omega3 (aggregate_micronutrients
        [map_food_item ex_oatmeal None, map_food_item ex_brie (Some [])]) = Some False
   \<and> fiber (aggregate_micronutrients
        [map_food_item ex_oatmeal None, map_food_item ex_brie (Some [])]) = Some False"
proof -
  have h: "\<forall>item \<in> set [map_food_item ex_oatmeal None, map_food_item ex_brie (Some [])].
      vitaminD (fi_containsMicronutrients item) = None
      \<and> omega3 (fi_containsMicronutrients item) = None
      \<and> fiber (fi_containsMicronutrients item) = None"
    by (simp add: map_food_item_def)
  then have l: "list_all (\<lambda>item. vitaminD (fi_containsMicronutrients item) = None
                      \<and> omega3 (fi_containsMicronutrients item) = None
                      \<and> fiber (fi_containsMicronutrients item) = None)
     [map_food_item ex_oatmeal None, map_food_item ex_brie (Some [])]"
    unfolding list_all_iff .
  show ?thesis
    using h l aggregate_micronutrients_or
      [of "[map_food_item ex_oatmeal None, map_food_item ex_brie (Some [])]"]
    by blast
qed

lemma mark_meals: "cov_meals (mark b a e) = cov_meals e @ (if b then [a] else [])"
  by (simp add: mark_def)

lemma mark_covered: "cov_covered (mark b a e) = (cov_covered e \<or> b)"
  by (simp add: mark_def)

lemma fold_summary_step:
  "fst (fold (summary_step ms) attrs (c, w)) =
     \<lparr>cov_calcium =
        \<lparr>cov_meals = cov_meals (cov_calcium c) @ filter (slot_covers calcium ms) attrs,
         cov_covered = (cov_covered (cov_calcium c)
                        \<or> (\<exists>a \<in> set attrs. slot_covers calcium ms a))\<rparr>,
      cov_iron =
        \<lparr>cov_meals = cov_meals (cov_iron c) @ filter (slot_covers iron ms) attrs,
         cov_covered = (cov_covered (cov_iron c)
                        \<or> (\<exists>a \<in> set attrs. slot_covers iron ms a))\<rparr>,
      cov_folicAcid =
        \<lparr>cov_meals = cov_meals (cov_folicAcid c) @ filter (slot_covers folicAcid ms) attrs,
         cov_covered = (cov_covered (cov_folicAcid c)
                        \<or> (\<exists>a \<in> set attrs. slot_covers folicAcid ms a))\<rparr>,
      cov_protein =
        \<lparr>cov_meals = cov_meals (cov_protein c) @ filter (slot_covers protein ms) attrs,
         cov_covered = (cov_covered (cov_protein c)
                        \<or> (\<exists>a \<in> set attrs. slot_covers protein ms a))\<rparr>\<rparr>"
proof (induction attrs arbitrary: c w)
  case Nil
  show ?case by simp
next
  case (Cons a attrs)
  show ?case
  proof (cases "getattr_meals ms a")
    case None
    then have "summary_step ms a (c, w) = (c, w)"
      by (simp add: summary_step_def)
    moreover from None have "\<And>flag. \<not> slot_covers flag ms a"
      by (simp add: slot_covers_def)
    ultimately show ?thesis using Cons.IH [of c w] by simp
  next
    case (Some meal)
    obtain c' w' where st: "summary_step ms a (c, w) = (c', w')"
      by (cases "summary_step ms a (c, w)")
    from Some have sc: "\<And>flag. slot_covers flag ms a = flag (m_containsMicronutrients meal)"
      by (simp add: slot_covers_def)
    from st Some have c':
      "c' = \<lparr>cov_calcium = mark (calcium (m_containsMicronutrients meal)) a (cov_calcium c),
             cov_iron = mark (iron (m_containsMicronutrients meal)) a (cov_iron c),
             cov_folicAcid = mark (folicAcid (m_containsMicronutrients meal)) a (cov_folicAcid c),
             cov_protein = mark (protein (m_containsMicronutrients meal)) a (cov_protein c)\<rparr>"
      by (simp add: summary_step_def Let_def)
    show ?thesis using Cons.IH [of c' w'] st
      by (simp add: c' sc mark_meals mark_covered)
  qed
qed

lemma ex_filter_length: "(\<exists>a \<in> set xs. P a) = (0 < length (filter P xs))"
  by (simp add: filter_empty_conv)

lemma get_status_cases:
  "(get_status (0 < n) n = ''missing'') = (\<not> 0 < n)"
  "(get_status (0 < n) n = ''good'') = (2 \<le> n)"
  "(get_status (0 < n) n = ''moderate'') = (n = 1)"
  by (auto simp: get_status_def)

lemma status_entry:
  "status_as_specified flag ms
     (nutrient_status \<lparr>cov_meals = filter (slot_covers flag ms) meal_attrs,
                       cov_covered = (\<exists>a \<in> set meal_attrs. slot_covers flag ms a)\<rparr>)"
  unfolding status_as_specified_def nutrient_status_def covering_slots_def ex_filter_length
  by (simp add: get_status_cases del: One_nat_def length_greater_0_conv)

text \<open>
  C1. For every day's meals and each core nutrient, the daily summary has \<open>covered\<close> true
  iff one of the five slots, in the order breakfast, snack1, lunch, snack2, dinner, holds
  a meal with the nutrient's aggregate flag; \<open>mealsCovered\<close> is the list of those slot
  names in that order; \<open>status\<close> is \<open>missing\<close> iff not covered, \<open>good\<close> iff at least two
  slots cover, \<open>moderate\<close> iff exactly one does; and \<open>missingNutrients\<close> lists, in the order
  Calcium, Iron, Folic Acid, Protein, the display names of the nutrients not covered.
\<close>

theorem daily_summary_as_specified:
  "status_as_specified calcium ms (ds_calcium (calculate_daily_summary ms))
   \<and> status_as_specified iron ms (ds_iron (calculate_daily_summary ms))
   \<and> status_as_specified folicAcid ms (ds_folicAcid (calculate_daily_summary ms))
   \<and> status_as_specified protein ms (ds_protein (calculate_daily_summary ms))
   \<and> missingNutrients (calculate_daily_summary ms) = missing_as_specified ms"
  using status_entry [of calcium ms] status_entry [of iron ms]
        status_entry [of folicAcid ms] status_entry [of protein ms]
  by (simp add: calculate_daily_summary_def Let_def fold_summary_step coverage_init_def
        missing_as_specified_def)

lemma ex_day_covering:
  "covering_slots iron ex_day = [''breakfast'', ''lunch'']"
  "covering_slots calcium ex_day = [''lunch'']"
  "covering_slots folicAcid ex_day = []"
  "covering_slots protein ex_day = []"
  by (simp_all add: covering_slots_def slot_covers_def meal_attrs_def getattr_meals_def
        ex_day_def DayMeals_default_def ex_breakfast_def ex_lunch_def
        aggregate_micronutrients_def map_food_item_def py_any_def)

theorem daily_summary_as_specified_witness:
  "covered (ds_iron (calculate_daily_summary ex_day))
   \<and> mealsCovered (ds_iron (calculate_daily_summary ex_day)) = [''breakfast'', ''lunch'']
   \<and> status (ds_iron (calculate_daily_summary ex_day)) = ''good''
   \<and> mealsCovered (ds_calcium (calculate_daily_summary ex_day)) = [''lunch'']
   \<and> status (ds_calcium (calculate_daily_summary ex_day)) = ''moderate''
   \<and> status (ds_folicAcid (calculate_daily_summary ex_day)) = ''missing''
   \<and> missingNutrients (calculate_daily_summary ex_day) = [''Folic Acid'', ''Protein'']"
proof -
  have cov: "(\<exists>attr \<in> set meal_attrs. slot_covers flag ex_day attr)
               = (covering_slots flag ex_day \<noteq> [])" for flag
    by (simp add: covering_slots_def filter_empty_conv)
  show ?thesis
    using daily_summary_as_specified [of ex_day]
    by (simp add: status_as_specified_def missing_as_specified_def cov ex_day_covering)
qed


section \<open>Day reconstructor\<close>

lemma dict_set_keys_present:
  "k \<in> fst ` set kvs \<Longrightarrow> map fst (dict_set k v kvs) = map fst kvs"
  by (induction kvs) force+

lemma dict_set_keys_new:
  "k \<notin> fst ` set kvs \<Longrightarrow> map fst (dict_set k v kvs) = map fst kvs @ [k]"
  by (induction kvs) auto

lemma dict_set_subset: "set (dict_set k v kvs) \<subseteq> insert (k, v) (set kvs)"
  by (induction kvs) (auto split: if_splits)

lemma process_row_keys:
  "map fst (process_row str nm row dm) =
     (if str (r_meal_date row) \<in> set (map fst dm) then map fst dm
      else map fst dm @ [str (r_meal_date row)])"
  by (simp add: process_row_def Let_def dict_set_keys_present dict_set_keys_new)

lemma process_row_keyed:
  assumes "keyed dm"
  shows "keyed (process_row str nm row dm)"
proof -
  let ?k = "str (r_meal_date row)"
  let ?d = "case map_of dm ?k of None \<Rightarrow> new_day ?k (r_day_of_week row) | Some d \<Rightarrow> d"
  have d: "dd_date ?d = ?k \<and> dd_id ?d = ?k"
  proof (cases "map_of dm ?k")
    case None
    then show ?thesis by (simp add: new_day_def)
  next
    case (Some d)
    then have "(?k, d) \<in> set dm" by (rule map_of_SomeD)
    with assms Some show ?thesis by (auto simp: keyed_def)
  qed
  obtain ms where pr: "process_row str nm row dm = dict_set ?k (?d\<lparr>dd_meals := ms\<rparr>) dm"
    by (simp add: process_row_def Let_def)
  show ?thesis
    unfolding keyed_def pr
    using dict_set_subset [of ?k "?d\<lparr>dd_meals := ms\<rparr>" dm] assms d
    by (auto simp: keyed_def)
qed

lemma fold_process_row_keyed:
  "keyed dm \<Longrightarrow> keyed (fold (process_row str nm) rows dm)"
  by (induction rows arbitrary: dm) (auto intro: process_row_keyed)

text \<open>
  The keys of the dict after the loop, for rows in ascending date order: the dates seen,
  each once, ascending. The dates already in the dict must not exceed those of the rows
  still to come.
\<close>

lemma fold_process_row_keys:
  assumes "inj str"
  shows "map fst dm = map str ds \<Longrightarrow> sorted ds \<Longrightarrow> distinct ds
     \<Longrightarrow> sorted (map r_meal_date rows)
     \<Longrightarrow> (\<forall>d \<in> set ds. \<forall>r \<in> set rows. d \<le> r_meal_date r)
     \<Longrightarrow> \<exists>ds'. map fst (fold (process_row str nm) rows dm) = map str ds'
            \<and> sorted ds' \<and> distinct ds' \<and> set ds' = set ds \<union> r_meal_date ` set rows"
proof (induction rows arbitrary: dm ds)
  case Nil
  then show ?case by auto
next
  case (Cons row rows)
  let ?d = "r_meal_date row"
  show ?case
  proof (cases "?d \<in> set ds")
    case True
    then have "str ?d \<in> set (map fst dm)" using Cons.prems(1) by auto
    then have k: "map fst (process_row str nm row dm) = map str ds"
      using Cons.prems(1) by (simp add: process_row_keys)
    have "\<exists>ds'. map fst (fold (process_row str nm) rows (process_row str nm row dm)) = map str ds'
            \<and> sorted ds' \<and> distinct ds' \<and> set ds' = set ds \<union> r_meal_date ` set rows"
      using Cons.prems by (intro Cons.IH [OF k]) auto
    with True show ?thesis by auto
  next
    case False
    then have "str ?d \<notin> set (map fst dm)"
      using Cons.prems(1) assms by (auto simp: inj_def)
    then have k: "map fst (process_row str nm row dm) = map str (ds @ [?d])"
      using Cons.prems(1) by (simp add: process_row_keys)
    have s: "sorted (ds @ [?d])"
      using Cons.prems(2,5) by (auto simp: sorted_append)
    have di: "distinct (ds @ [?d])" using Cons.prems(3) False by simp
    have le: "\<forall>d \<in> set (ds @ [?d]). \<forall>r \<in> set rows. d \<le> r_meal_date r"
      using Cons.prems(4,5) by auto
    have "sorted (map r_meal_date rows)" using Cons.prems(4) by simp
    from Cons.IH [OF k s di this le]
    show ?thesis by auto
  qed
qed

lemma join_foods_dates:
  "join_foods db m mi \<noteq> [] \<and> (\<forall>r \<in> set (join_foods db m mi). r_meal_date r = log_date m)"
  by (auto simp: join_foods_def joined_def split: list.splits)

lemma join_items_dates:
  "join_items db m \<noteq> [] \<and> (\<forall>r \<in> set (join_items db m). r_meal_date r = log_date m)"
proof (cases "filter (\<lambda>mi. meals_id m = meal_id mi) (meal_items db)")
  case Nil
  then show ?thesis by (simp add: join_items_def joined_def)
next
  case (Cons mi mis)
  then show ?thesis using join_foods_dates [of db m]
    by (auto simp: join_items_def)
qed

lemma range_query_dates:
  "r_meal_date ` set (range_query db u s e) = log_date ` set (filter (in_range u s e) (meals db))"
proof -
  have "r_meal_date ` set (join_items db m) = {log_date m}" for m
    using join_items_dates [of db m] by (cases "join_items db m") auto
  then show ?thesis
    by (auto simp: range_query_def image_UN)
qed

lemma range_query_sorted: "sorted (map r_meal_date (range_query db u s e))"
proof -
  have "sorted (map order_by (range_query db u s e))"
    by (simp add: range_query_def)
  then have "sorted_wrt (\<lambda>a b. order_by a \<le> order_by b) (range_query db u s e)"
    by (simp add: sorted_map)
  then have "sorted_wrt (\<lambda>a b. r_meal_date a \<le> r_meal_date b) (range_query db u s e)"
    by (rule sorted_wrt_mono_rel [rotated]) (auto simp: order_by_def less_eq_prod_def)
  then show ?thesis by (simp add: sorted_map)
qed

lemma finish_day_date: "dd_date (finish_day d) = dd_date d"
  by (simp add: finish_day_def Let_def)

lemma inj_ex_str: "inj ex_str"
proof (rule injI)
  fix x y assume "ex_str x = ex_str y"
  then have "length (ex_str x) = length (ex_str y)" by simp
  then show "x = y" by (simp add: ex_str_def)
qed

text \<open>
  C3. For every user and inclusive date range, the records the day reconstructor returns
  are, by date, exactly the distinct dates of the user's meal rows in the range, each
  once, in ascending order; so it returns no record iff the range holds no meal row (it
  adds no empty days). \<open>str\<close>, Python's printing of a date, is injective.
\<close>

theorem get_meals_by_date_range_days:
  assumes "inj str"
  shows "map dd_date (get_meals_by_date_range str db u start_date end_date)
           = map str (sort (remdups (map log_date
                 (filter (in_range u start_date end_date) (meals db)))))
         \<and> distinct (map dd_date (get_meals_by_date_range str db u start_date end_date))
         \<and> (get_meals_by_date_range str db u start_date end_date = [])
             = (filter (in_range u start_date end_date) (meals db) = [])"
proof -
  let ?rows = "range_query db u start_date end_date"
  let ?nm = "get_food_nutrients_map db (row_food_ids ?rows)"
  let ?dm = "fold (process_row str ?nm) ?rows []"
  let ?D = "map log_date (filter (in_range u start_date end_date) (meals db))"
  let ?res = "get_meals_by_date_range str db u start_date end_date"
  have res: "?res = map (\<lambda>kv. finish_day (snd kv)) ?dm"
    by (simp add: get_meals_by_date_range_def Let_def)
  have "keyed ?dm" by (rule fold_process_row_keyed) (simp add: keyed_def)
  then have dates: "map dd_date (map (\<lambda>kv. finish_day (snd kv)) ?dm) = map fst ?dm"
    by (auto simp: keyed_def finish_day_date)
  obtain ds where ds: "map fst ?dm = map str ds" "sorted ds" "distinct ds"
      "set ds = r_meal_date ` set ?rows"
    using fold_process_row_keys [OF assms, of "[]" "[]" ?rows ?nm]
      range_query_sorted [of db u start_date end_date]
    by auto
  have "set ds = set (sort (remdups ?D))"
    using ds(4) by (simp add: range_query_dates)
  then have "ds = sort (remdups ?D)"
    using ds(2,3) by (intro sorted_distinct_set_unique) auto
  with ds(1) dates res have main: "map dd_date ?res = map str (sort (remdups ?D))"
    by simp
  have dist: "distinct (map dd_date ?res)"
    unfolding main using assms by (simp add: distinct_map inj_on_def inj_def)
  have "(set (sort (remdups ?D)) = {}) = (set ?D = {})"
    by simp
  then have "(sort (remdups ?D) = []) = (?D = [])"
    unfolding set_empty .
  then have "(map dd_date ?res = []) = (?D = [])"
    unfolding main by simp
  then have empty: "(?res = []) = (filter (in_range u start_date end_date) (meals db) = [])"
    by simp
  from main dist empty show ?thesis by blast
qed

theorem get_meals_by_date_range_days_witness:
  "inj ex_str
   \<and> map dd_date (get_meals_by_date_range ex_str ex_db ''u1'' 2 7) = [ex_str 3, ex_str 5]
   \<and> filter (in_range ''u1'' 6 9) (meals ex_db) = []
   \<and> get_meals_by_date_range ex_str ex_db ''u1'' 6 9 = []"
proof -
  have e: "filter (in_range ''u1'' 6 9) (meals ex_db) = []"
    by (simp add: ex_db_def in_range_def)
  have d: "sort (remdups (map log_date (filter (in_range ''u1'' 2 7) (meals ex_db)))) = [3, 5]"
    by (simp add: ex_db_def in_range_def)
  show ?thesis
    using get_meals_by_date_range_days [OF inj_ex_str, of ex_db "''u1''" 2 7]
      get_meals_by_date_range_days [OF inj_ex_str, of ex_db "''u1''" 6 9]
    by (simp add: inj_ex_str e d)
qed


section \<open>Meal item ordering\<close>

subsection \<open>The slot header\<close>

lemma find_map_update:
  assumes "\<And>x. P (f x) = P x" "\<And>x. \<not> P x \<Longrightarrow> f x = x"
  shows "find P (map f xs) = map_option f (find P xs)"
  using assms by (induction xs) auto

lemma find_append_new: "find P xs = None \<Longrightarrow> P y \<Longrightarrow> find P (xs @ [y]) = Some y"
  by (induction xs) (auto split: if_splits)

lemma header_items:
  "meal_items (fst (insert_meal_on_conflict gen now u d dow t db)) = meal_items db"
  by (simp add: insert_meal_on_conflict_def Let_def split: option.splits)

lemma header_after:
  "\<exists>r. find (conflict u d t) (meals (fst (insert_meal_on_conflict gen now u d dow t db))) = Some r
       \<and> meals_id r = snd (insert_meal_on_conflict gen now u d dow t db)
       \<and> day_of_week r = dow"
proof (cases "find (conflict u d t) (meals db)")
  case None
  then show ?thesis
    by (simp add: insert_meal_on_conflict_def Let_def find_append_new conflict_def)
next
  case (Some r0)
  let ?f = "\<lambda>r. if conflict u d t r then r\<lparr>day_of_week := dow, updated_at := now\<rparr> else r"
  have "find (conflict u d t) (map ?f (meals db)) = map_option ?f (find (conflict u d t) (meals db))"
    by (rule find_map_update) (auto simp: conflict_def)
  moreover have "conflict u d t r0" using Some by (auto simp: find_Some_iff)
  ultimately show ?thesis using Some
    by (simp add: insert_meal_on_conflict_def)
qed

lemma header_kept:
  "find (conflict u d t) (meals db) = Some r0
     \<Longrightarrow> snd (insert_meal_on_conflict gen now u d dow t db) = meals_id r0"
  by (simp add: insert_meal_on_conflict_def)

lemma header_new:
  "find (conflict u d t) (meals db) = None
     \<Longrightarrow> snd (insert_meal_on_conflict gen now u d dow t db) = gen (map meals_id (meals db))"
  by (simp add: insert_meal_on_conflict_def Let_def)

lemma header_id:
  "snd (insert_meal_on_conflict gen now u d dow t db)
     = (case find (conflict u d t) (meals db) of
          Some r0 \<Rightarrow> meals_id r0
        | None \<Rightarrow> gen (map meals_id (meals db)))"
  by (simp add: header_kept header_new split: option.splits)

subsection \<open>Statements on the item rows\<close>

lemma meals_delete: "meals (delete_meal_items mid db) = meals db"
  by (simp add: delete_meal_items_def)

lemma slot_rows_delete: "slot_rows mid (delete_meal_items mid db) = []"
  by (simp add: slot_rows_def delete_meal_items_def)

lemma meals_insert_item: "meals (insert_meal_item gen mid fid idx db) = meals db"
  by (simp add: insert_meal_item_def)

lemma slot_rows_insert:
  "slot_rows mid (insert_meal_item gen mid fid idx db) =
     slot_rows mid db @ [\<lparr>meal_items_id = gen (map meal_items_id (meal_items db)),
                           meal_id = mid, food_id = fid, sort_order = idx\<rparr>]"
  by (simp add: slot_rows_def insert_meal_item_def)

lemma set_slot_items: "set (slot_items mid db) = set (slot_rows mid db)"
  by (simp add: slot_items_def)

lemma slot_items_empty: "slot_rows mid db = [] \<Longrightarrow> slot_items mid db = []"
  by (simp add: slot_items_def)

subsection \<open>Replace-all\<close>

lemma fold_insert_meals:
  "meals (fold (\<lambda>(idx, fid). insert_meal_item gen mid fid (int idx)) ps db) = meals db"
  by (induction ps arbitrary: db) (auto simp: meals_insert_item)

lemma fold_insert_rows:
  "map (\<lambda>r. (food_id r, sort_order r))
       (slot_rows mid (fold (\<lambda>(idx, fid). insert_meal_item gen mid fid (int idx))
                            (List.enumerate n fids) db))
     = map (\<lambda>r. (food_id r, sort_order r)) (slot_rows mid db)
       @ zip fids (map int [n..<n + length fids])"
proof (induction fids arbitrary: n db)
  case Nil
  show ?case by simp
next
  case (Cons f fids)
  have "[n..<n + length (f # fids)] = n # [Suc n..<Suc n + length fids]"
    by (subst upt_rec) simp
  then show ?case using Cons.IH [of "Suc n" "insert_meal_item gen mid f (int n) db"]
    by (simp add: slot_rows_insert)
qed

lemma upsert_meal_rows:
  "map (\<lambda>r. (food_id r, sort_order r))
       (slot_rows (snd (insert_meal_on_conflict gen now u d dow t db))
                  (upsert_meal gen now u d dow t fids db))
     = zip fids (map int [0..<length fids])"
proof (cases "fids = []")
  case True
  then show ?thesis by (simp add: upsert_meal_def Let_def slot_rows_delete)
next
  case False
  then show ?thesis
    using fold_insert_rows [of "snd (insert_meal_on_conflict gen now u d dow t db)" gen 0 fids
        "delete_meal_items (snd (insert_meal_on_conflict gen now u d dow t db))
           (fst (insert_meal_on_conflict gen now u d dow t db))"]
    by (simp add: upsert_meal_def Let_def slot_rows_delete)
qed

lemma upsert_meal_meals:
  "meals (upsert_meal gen now u d dow t fids db)
     = meals (fst (insert_meal_on_conflict gen now u d dow t db))"
  by (simp add: upsert_meal_def Let_def fold_insert_meals meals_delete)

lemma view_of_rows:
  assumes "map (\<lambda>r. (food_id r, sort_order r)) (slot_rows mid db)
             = zip fids (map int [0..<length fids])"
  shows "map food_id (slot_items mid db) = fids
         \<and> map sort_order (slot_items mid db) = map int [0..<length fids]"
proof -
  have "map snd (map (\<lambda>r. (food_id r, sort_order r)) (slot_rows mid db))
          = map int [0..<length fids]"
    unfolding assms by simp
  then have so: "map sort_order (slot_rows mid db) = map int [0..<length fids]"
    by (simp add: comp_def)
  have "sorted (map int [0..<length fids])"
    by (simp add: sorted_map sorted_wrt_iff_nth_less)
  hence "sorted (map sort_order (slot_rows mid db))"
    using so by simp
  then have id: "slot_items mid db = slot_rows mid db"
    by (simp add: slot_items_def sort_key_id_if_sorted)
  have "map fst (map (\<lambda>r. (food_id r, sort_order r)) (slot_rows mid db)) = fids"
    unfolding assms by simp
  then have "map food_id (slot_rows mid db) = fids" by (simp add: comp_def)
  with id so show ?thesis by simp
qed

lemma header_frame:
  "filter (\<lambda>r. \<not> conflict u d t r) (meals (fst (insert_meal_on_conflict gen now u d dow t db)))
     = filter (\<lambda>r. \<not> conflict u d t r) (meals db)"
proof (cases "find (conflict u d t) (meals db)")
  case None
  then show ?thesis
    by (simp add: insert_meal_on_conflict_def Let_def conflict_def)
next
  case (Some r0)
  have "filter (\<lambda>r. \<not> conflict u d t r)
          (map (\<lambda>r. if conflict u d t r then r\<lparr>day_of_week := dow, updated_at := now\<rparr> else r) xs)
        = filter (\<lambda>r. \<not> conflict u d t r) xs" for xs
    by (induction xs) (auto simp: conflict_def)
  with Some show ?thesis
    by (simp add: insert_meal_on_conflict_def)
qed

lemma meal_items_insert_item:
  "meal_items (insert_meal_item gen mid fid idx db) =
     meal_items db @ [\<lparr>meal_items_id = gen (map meal_items_id (meal_items db)),
                        meal_id = mid, food_id = fid, sort_order = idx\<rparr>]"
  by (simp add: insert_meal_item_def)

lemma fold_insert_items:
  "\<exists>new. meal_items (fold (\<lambda>(idx, fid). insert_meal_item gen mid fid (int idx))
                            (List.enumerate n fids) db) = meal_items db @ new
         \<and> map (\<lambda>r. (meal_id r, food_id r, sort_order r)) new
             = map (\<lambda>(idx, fid). (mid, fid, int idx)) (List.enumerate n fids)"
proof (induction fids arbitrary: n db)
  case Nil
  show ?case by simp
next
  case (Cons f fids)
  obtain new where new:
    "meal_items (fold (\<lambda>(idx, fid). insert_meal_item gen mid fid (int idx))
                   (List.enumerate (Suc n) fids) (insert_meal_item gen mid f (int n) db))
       = meal_items (insert_meal_item gen mid f (int n) db) @ new"
    "map (\<lambda>r. (meal_id r, food_id r, sort_order r)) new
       = map (\<lambda>(idx, fid). (mid, fid, int idx)) (List.enumerate (Suc n) fids)"
    using Cons.IH [of "Suc n" "insert_meal_item gen mid f (int n) db"] by blast
  let ?r = "\<lparr>meal_items_id = gen (map meal_items_id (meal_items db)),
                        meal_id = mid, food_id = f, sort_order = int n\<rparr>"
  have "meal_items (fold (\<lambda>(idx, fid). insert_meal_item gen mid fid (int idx))
                            (List.enumerate n (f # fids)) db) = meal_items db @ (?r # new)"
    using new(1) by (simp add: meal_items_insert_item)
  moreover have "map (\<lambda>r. (meal_id r, food_id r, sort_order r)) (?r # new)
             = map (\<lambda>(idx, fid). (mid, fid, int idx)) (List.enumerate n (f # fids))"
    using new(2) by simp
  ultimately show ?case by blast
qed

lemma upsert_meal_items:
  "\<exists>new. meal_items (upsert_meal gen now u d dow t fids db)
           = filter (\<lambda>r. meal_id r \<noteq> snd (insert_meal_on_conflict gen now u d dow t db))
               (meal_items db) @ new
         \<and> map (\<lambda>r. (meal_id r, food_id r, sort_order r)) new
             = map (\<lambda>(idx, fid). (snd (insert_meal_on_conflict gen now u d dow t db), fid, int idx))
                 (List.enumerate 0 fids)"
proof (cases "fids = []")
  case True
  then show ?thesis
    by (simp add: upsert_meal_def Let_def delete_meal_items_def header_items)
next
  case False
  then show ?thesis
    using fold_insert_items [of gen "snd (insert_meal_on_conflict gen now u d dow t db)" 0 fids
        "delete_meal_items (snd (insert_meal_on_conflict gen now u d dow t db))
           (fst (insert_meal_on_conflict gen now u d dow t db))"]
    by (simp add: upsert_meal_def Let_def delete_meal_items_def header_items)
qed

lemma upsert_meal_other_slots:
  assumes "m \<noteq> snd (insert_meal_on_conflict gen now u d dow t db)"
  shows "slot_rows m (upsert_meal gen now u d dow t fids db) = slot_rows m db"
proof -
  let ?mid = "snd (insert_meal_on_conflict gen now u d dow t db)"
  obtain new where new:
    "meal_items (upsert_meal gen now u d dow t fids db)
       = filter (\<lambda>r. meal_id r \<noteq> ?mid) (meal_items db) @ new"
    "map (\<lambda>r. (meal_id r, food_id r, sort_order r)) new
       = map (\<lambda>(idx, fid). (?mid, fid, int idx)) (List.enumerate 0 fids)"
    using upsert_meal_items [of gen now u d dow t fids db] by blast
  have "map fst (map (\<lambda>r. (meal_id r, food_id r, sort_order r)) new)
          = map fst (map (\<lambda>(idx, fid). (?mid, fid, int idx)) (List.enumerate 0 fids))"
    using new(2) by simp
  then have "map meal_id new = map (\<lambda>p. ?mid) (List.enumerate 0 fids)"
    by (simp add: comp_def case_prod_beta)
  then have "set (map meal_id new) \<subseteq> {?mid}"
    by auto
  then have "\<forall>r \<in> set new. meal_id r = ?mid"
    by auto
  then have n: "filter (\<lambda>r. meal_id r = m) new = []"
    using assms by (auto simp: filter_empty_conv)
  have "filter (\<lambda>r. meal_id r = m) (filter (\<lambda>r. meal_id r \<noteq> ?mid) (meal_items db))
          = filter (\<lambda>r. meal_id r = m) (meal_items db)"
    using assms by (auto intro: filter_cong)
  with n show ?thesis
    by (simp add: slot_rows_def new(1))
qed

text \<open>
  C5. For every user, date, day of week, slot type and list of food ids, upsert-slot
  leaves a header for the slot with the given day of week, whose id is the id of the
  header that existed (the identity is kept) or else the generated one, and leaves the
  headers of all other slots as they were; it deletes the item rows of that slot and of
  no other slot, and appends one row per given food id, with sort indices 0..n-1 in list
  order: the item table afterwards is the earlier table without the slot's rows,
  followed by the new rows, so every other slot keeps its rows and the slot reads back
  as the given list; with the empty list the header exists and the slot has no rows; and
  a second call with the same arguments addresses the same slot and leaves the same
  item list.
\<close>

theorem upsert_meal_replaces:
  "let mid = snd (insert_meal_on_conflict gen now u d dow t db);
       db' = upsert_meal gen now u d dow t fids db;
       db'' = upsert_meal gen now' u d dow t fids db';
       db0 = upsert_meal gen now u d dow t [] db
   in (\<exists>r. find (conflict u d t) (meals db') = Some r \<and> meals_id r = mid \<and> day_of_week r = dow)
      \<and> mid = (case find (conflict u d t) (meals db) of
                 Some r0 \<Rightarrow> meals_id r0 | None \<Rightarrow> gen (map meals_id (meals db)))
      \<and> map (\<lambda>r. (food_id r, sort_order r)) (slot_rows mid db')
          = zip fids (map int [0..<length fids])
      \<and> map food_id (slot_items mid db') = fids
      \<and> (\<exists>r. find (conflict u d t) (meals db0) = Some r \<and> meals_id r = mid)
      \<and> slot_rows mid db0 = []
      \<and> snd (insert_meal_on_conflict gen now' u d dow t db') = mid
      \<and> map food_id (slot_items mid db'') = map food_id (slot_items mid db')
      \<and> (\<exists>new. meal_items db' = filter (\<lambda>r. meal_id r \<noteq> mid) (meal_items db) @ new
                \<and> map (\<lambda>r. (meal_id r, food_id r, sort_order r)) new
                    = map (\<lambda>(idx, fid). (mid, fid, int idx)) (List.enumerate 0 fids))
      \<and> (\<forall>m. m \<noteq> mid \<longrightarrow> slot_rows m db' = slot_rows m db \<and> slot_rows m db0 = slot_rows m db)
      \<and> filter (\<lambda>r. \<not> conflict u d t r) (meals db')
          = filter (\<lambda>r. \<not> conflict u d t r) (meals db)"
proof -
  define mid where "mid = snd (insert_meal_on_conflict gen now u d dow t db)"
  define db' where "db' = upsert_meal gen now u d dow t fids db"
  define db'' where "db'' = upsert_meal gen now' u d dow t fids db'"
  define db0 where "db0 = upsert_meal gen now u d dow t [] db"
  obtain r where r: "find (conflict u d t) (meals db') = Some r" "meals_id r = mid"
      "day_of_week r = dow"
    using header_after [of u d t gen now dow db]
    by (auto simp: db'_def mid_def upsert_meal_meals)
  have h0: "\<exists>r. find (conflict u d t) (meals db0) = Some r \<and> meals_id r = mid"
    using header_after [of u d t gen now dow db]
    by (auto simp: db0_def mid_def upsert_meal_meals)
  have kept: "mid = (case find (conflict u d t) (meals db) of
                 Some r0 \<Rightarrow> meals_id r0 | None \<Rightarrow> gen (map meals_id (meals db)))"
    unfolding mid_def by (rule header_id)
  have rows: "map (\<lambda>r. (food_id r, sort_order r)) (slot_rows mid db')
                = zip fids (map int [0..<length fids])"
    unfolding mid_def db'_def by (rule upsert_meal_rows)
  have rows0: "slot_rows mid db0 = []"
    using upsert_meal_rows [of gen now u d dow t db "[]"] by (simp add: mid_def db0_def)
  have mid': "snd (insert_meal_on_conflict gen now' u d dow t db') = mid"
    using r(1,2) by (simp add: header_kept)
  have rows': "map (\<lambda>r. (food_id r, sort_order r)) (slot_rows mid db'')
                 = zip fids (map int [0..<length fids])"
    using upsert_meal_rows [of gen now' u d dow t db' fids] by (simp add: mid' db''_def)
  have table: "\<exists>new. meal_items db' = filter (\<lambda>r. meal_id r \<noteq> mid) (meal_items db) @ new
                \<and> map (\<lambda>r. (meal_id r, food_id r, sort_order r)) new
                    = map (\<lambda>(idx, fid). (mid, fid, int idx)) (List.enumerate 0 fids)"
    unfolding mid_def db'_def by (rule upsert_meal_items)
  have others: "\<forall>m. m \<noteq> mid \<longrightarrow> slot_rows m db' = slot_rows m db \<and> slot_rows m db0 = slot_rows m db"
    unfolding mid_def db'_def db0_def by (simp add: upsert_meal_other_slots)
  have headers: "filter (\<lambda>r. \<not> conflict u d t r) (meals db')
          = filter (\<lambda>r. \<not> conflict u d t r) (meals db)"
    unfolding db'_def by (simp add: upsert_meal_meals header_frame)
  have first: "(\<exists>r. find (conflict u d t) (meals db') = Some r \<and> meals_id r = mid
                    \<and> day_of_week r = dow)"
    using r by simp
  have v: "map food_id (slot_items mid db') = fids"
    using view_of_rows [OF rows] by simp
  have v': "map food_id (slot_items mid db'') = map food_id (slot_items mid db')"
    using view_of_rows [OF rows] view_of_rows [OF rows'] by simp
  show ?thesis
    unfolding Let_def mid_def [symmetric] db'_def [symmetric] db''_def [symmetric]
      db0_def [symmetric]
    by (intro conjI first kept rows v h0 rows0 mid' v' table others headers)
qed

theorem upsert_meal_replaces_witness:
  "snd (insert_meal_on_conflict ex_gen 7 ''u1'' 5 ''Fri'' ''Breakfast'' ex_db) = ''m1''
   \<and> map food_id (slot_items ''m1'' ex_db) = [''f1'']
   \<and> map food_id (slot_items ''m1''
        (upsert_meal ex_gen 7 ''u1'' 5 ''Fri'' ''Breakfast'' [''f2'', ''f3'', ''f2''] ex_db))
       = [''f2'', ''f3'', ''f2'']
   \<and> map food_id (slot_items ''m1''
        (upsert_meal ex_gen 8 ''u1'' 5 ''Fri'' ''Breakfast'' [''f2'', ''f3'', ''f2'']
          (upsert_meal ex_gen 7 ''u1'' 5 ''Fri'' ''Breakfast'' [''f2'', ''f3'', ''f2''] ex_db)))
       = [''f2'', ''f3'', ''f2'']
   \<and> slot_rows ''m1'' (upsert_meal ex_gen 7 ''u1'' 5 ''Fri'' ''Breakfast'' [] ex_db) = []
   \<and> ''m2'' \<noteq> ''m1''
   \<and> slot_rows ''m2''
        (upsert_meal ex_gen 7 ''u1'' 5 ''Fri'' ''Breakfast'' [''f2'', ''f3'', ''f2''] ex_db)
       = [\<lparr>meal_items_id = ''i2'', meal_id = ''m2'', food_id = ''f2'', sort_order = 0\<rparr>]"
proof -
  have mid: "snd (insert_meal_on_conflict ex_gen 7 ''u1'' 5 ''Fri'' ''Breakfast'' ex_db) = ''m1''"
    by (simp add: insert_meal_on_conflict_def ex_db_def conflict_def)
  have old: "map food_id (slot_items ''m1'' ex_db) = [''f1'']"
    by (simp add: slot_items_def slot_rows_def ex_db_def)
  have other: "slot_rows ''m2'' ex_db
       = [\<lparr>meal_items_id = ''i2'', meal_id = ''m2'', food_id = ''f2'', sort_order = 0\<rparr>]"
    by (simp add: slot_rows_def ex_db_def)
  have hdr: "find (conflict ''u1'' 5 ''Breakfast'') (meals ex_db)
               = Some \<lparr>meals_id = ''m1'', user_id = ''u1'', log_date = 5,
                        day_of_week = ''Friday'', meal_type = ''Breakfast'',
                        meal_notes = None, updated_at = 0\<rparr>"
    by (simp add: ex_db_def conflict_def)
  have ne: "''m2'' \<noteq> ''m1''" by simp
  note t = upsert_meal_replaces
      [of ex_gen 7 "''u1''" 5 "''Fri''" "''Breakfast''" ex_db "[''f2'', ''f3'', ''f2'']" 8,
       unfolded Let_def mid]
  note a = t [THEN conjunct2, THEN conjunct2, THEN conjunct2, THEN conjunct1]
  note c = t [THEN conjunct2, THEN conjunct2, THEN conjunct2, THEN conjunct2, THEN conjunct2,
              THEN conjunct1]
  note b = t [THEN conjunct2, THEN conjunct2, THEN conjunct2, THEN conjunct2, THEN conjunct2,
              THEN conjunct2, THEN conjunct2, THEN conjunct1]
  note o = t [THEN conjunct2, THEN conjunct2, THEN conjunct2, THEN conjunct2, THEN conjunct2,
              THEN conjunct2, THEN conjunct2, THEN conjunct2, THEN conjunct2, THEN conjunct1,
              THEN spec, THEN mp, OF ne, THEN conjunct1]
  show ?thesis
    by (simp add: mid old a b c o other)
qed

subsection \<open>Append-one\<close>

lemma sql_max_Some: "xs \<noteq> [] \<Longrightarrow> sql_max xs = Some (Max (set xs))"
proof (cases xs)
  case Nil
  assume "xs \<noteq> []"
  with Nil show ?thesis by simp
next
  case (Cons x ys)
  have "fold max ys x = Max (set (x # ys))"
    by (rule Max.set_eq_fold [symmetric])
  with Cons show ?thesis by simp
qed

lemma next_order_eq:
  "next_order mid db =
     (if slot_rows mid db = [] then 0 else Max (sort_order ` set (slot_rows mid db)) + 1)"
proof (cases "slot_rows mid db = []")
  case True
  then show ?thesis by (simp add: next_order_def slot_rows_def)
next
  case False
  then have "map sort_order (slot_rows mid db) \<noteq> []" by simp
  from sql_max_Some [OF this] False show ?thesis
    by (simp add: next_order_def slot_rows_def)
qed

lemma next_order_above: "r \<in> set (slot_rows mid db) \<Longrightarrow> sort_order r < next_order mid db"
proof -
  assume r: "r \<in> set (slot_rows mid db)"
  then have "sort_order r \<le> Max (sort_order ` set (slot_rows mid db))" by simp
  moreover from r have "slot_rows mid db \<noteq> []" by auto
  ultimately show ?thesis by (simp add: next_order_eq)
qed

lemma insort_key_last:
  "\<forall>x \<in> set xs. f x \<le> f y \<Longrightarrow> f z \<le> f y
     \<Longrightarrow> insort_key f z (xs @ [y]) = insort_key f z xs @ [y]"
  by (induction xs) auto

lemma sort_key_snoc:
  "\<forall>x \<in> set xs. f x \<le> f y \<Longrightarrow> sort_key f (xs @ [y]) = sort_key f xs @ [y]"
proof (induction xs)
  case Nil
  show ?case by simp
next
  case (Cons x xs)
  then have "insort_key f x (sort_key f xs @ [y]) = insort_key f x (sort_key f xs) @ [y]"
    by (intro insort_key_last) auto
  with Cons show ?case by simp
qed

lemma next_order_header:
  "next_order mid (fst (insert_meal_on_conflict gen now u d dow t db)) = next_order mid db"
  by (simp add: next_order_def header_items)

lemma add_meal_item_items:
  "meal_items (add_meal_item gen now u d dow t fid db) =
     meal_items db @ [\<lparr>meal_items_id = gen (map meal_items_id (meal_items db)),
                        meal_id = snd (insert_meal_on_conflict gen now u d dow t db),
                        food_id = fid,
                        sort_order = next_order (snd (insert_meal_on_conflict gen now u d dow t db)) db\<rparr>]"
  by (simp add: add_meal_item_def Let_def insert_meal_item_def header_items next_order_header)

lemma add_meal_item_meals:
  "meals (add_meal_item gen now u d dow t fid db)
     = meals (fst (insert_meal_on_conflict gen now u d dow t db))"
  by (simp add: add_meal_item_def Let_def meals_insert_item)

lemma add_meal_item_view:
  assumes "mid = snd (insert_meal_on_conflict gen now u d dow t db)"
  shows "slot_items mid (add_meal_item gen now u d dow t fid db) =
     slot_items mid db @ [\<lparr>meal_items_id = gen (map meal_items_id (meal_items db)),
                        meal_id = mid, food_id = fid, sort_order = next_order mid db\<rparr>]"
proof -
  let ?new = "\<lparr>meal_items_id = gen (map meal_items_id (meal_items db)),
                        meal_id = mid, food_id = fid, sort_order = next_order mid db\<rparr>"
  have "slot_rows mid (add_meal_item gen now u d dow t fid db) = slot_rows mid db @ [?new]"
    by (simp add: slot_rows_def add_meal_item_items assms)
  moreover have "\<forall>x \<in> set (slot_rows mid db). sort_order x \<le> sort_order ?new"
    using next_order_above [of _ mid db] by (auto simp: less_imp_le)
  ultimately show ?thesis
    by (simp add: slot_items_def sort_key_snoc)
qed

lemma add_meal_item_header:
  "\<exists>r. find (conflict u d t) (meals (add_meal_item gen now u d dow t fid db)) = Some r
       \<and> meals_id r = snd (insert_meal_on_conflict gen now u d dow t db) \<and> day_of_week r = dow"
  using header_after [of u d t gen now dow db] by (simp add: add_meal_item_meals)

lemma add_meal_item_same_slot:
  "snd (insert_meal_on_conflict gen now' u d dow' t (add_meal_item gen now u d dow t fid db))
     = snd (insert_meal_on_conflict gen now u d dow t db)"
  using add_meal_item_header [of u d t gen now dow fid db] by (auto simp: header_kept)

text \<open>
  C6. For every user, date, day of week, slot type and food id, add-item leaves a header
  for the slot (the existing one, its day of week updated, or a new one) and appends
  exactly one item row for the slot, with the food id and with sort index 0 when the slot
  had no rows and the maximum index plus 1 otherwise; all other rows stay as they were,
  and the slot reads back as its earlier items, in their earlier order, followed by the
  new one. Adding to a brand-new slot (no header, and no item row referring to the key
  the storage generates) yields one item with index 0; adding \<open>A\<close> then \<open>B\<close> to a slot
  without rows yields the order \<open>[A, B]\<close>.
\<close>

theorem add_meal_item_appends:
  "let mid = snd (insert_meal_on_conflict gen now u d dow t db);
       db' = add_meal_item gen now u d dow t A db;
       new = \<lparr>meal_items_id = gen (map meal_items_id (meal_items db)), meal_id = mid,
              food_id = A,
              sort_order = (if slot_rows mid db = [] then 0
                            else Max (sort_order ` set (slot_rows mid db)) + 1)\<rparr>
   in (\<exists>r. find (conflict u d t) (meals db') = Some r \<and> meals_id r = mid \<and> day_of_week r = dow)
      \<and> mid = (case find (conflict u d t) (meals db) of
                 Some r0 \<Rightarrow> meals_id r0 | None \<Rightarrow> gen (map meals_id (meals db)))
      \<and> meal_items db' = meal_items db @ [new]
      \<and> slot_items mid db' = slot_items mid db @ [new]
      \<and> (find (conflict u d t) (meals db) = None \<and> mid \<notin> meal_id ` set (meal_items db)
           \<longrightarrow> map (\<lambda>r. (food_id r, sort_order r)) (slot_items mid db') = [(A, 0)])
      \<and> (slot_rows mid db = []
           \<longrightarrow> map food_id (slot_items mid (add_meal_item gen now' u d dow' t B db')) = [A, B])"
proof -
  define mid where "mid = snd (insert_meal_on_conflict gen now u d dow t db)"
  define db' where "db' = add_meal_item gen now u d dow t A db"
  define new where "new = \<lparr>meal_items_id = gen (map meal_items_id (meal_items db)),
              meal_id = mid, food_id = A,
              sort_order = (if slot_rows mid db = [] then 0
                            else Max (sort_order ` set (slot_rows mid db)) + 1)\<rparr>"
  have new': "new = \<lparr>meal_items_id = gen (map meal_items_id (meal_items db)), meal_id = mid,
              food_id = A, sort_order = next_order mid db\<rparr>"
    by (simp add: new_def next_order_eq)
  have h: "\<exists>r. find (conflict u d t) (meals db') = Some r \<and> meals_id r = mid \<and> day_of_week r = dow"
    unfolding db'_def mid_def by (rule add_meal_item_header)
  have m: "mid = (case find (conflict u d t) (meals db) of
                 Some r0 \<Rightarrow> meals_id r0 | None \<Rightarrow> gen (map meals_id (meals db)))"
    unfolding mid_def by (rule header_id)
  have i: "meal_items db' = meal_items db @ [new]"
    by (simp add: db'_def add_meal_item_items new' mid_def)
  have v: "slot_items mid db' = slot_items mid db @ [new]"
    unfolding db'_def new' by (rule add_meal_item_view) (simp add: mid_def)
  have e: "map (\<lambda>r. (food_id r, sort_order r)) (slot_items mid db') = [(A, 0)]"
    if "mid \<notin> meal_id ` set (meal_items db)"
  proof -
    from that have "slot_rows mid db = []"
      by (auto simp: slot_rows_def filter_empty_conv)
    then show ?thesis by (simp add: v slot_items_empty new_def)
  qed
  have mid2: "snd (insert_meal_on_conflict gen now' u d dow' t db') = mid"
    by (simp add: db'_def mid_def add_meal_item_same_slot)
  have v2: "slot_items mid (add_meal_item gen now' u d dow' t B db') =
     slot_items mid db' @ [\<lparr>meal_items_id = gen (map meal_items_id (meal_items db')),
                        meal_id = mid, food_id = B, sort_order = next_order mid db'\<rparr>]"
    by (rule add_meal_item_view) (simp add: mid2)
  have ab: "map food_id (slot_items mid (add_meal_item gen now' u d dow' t B db')) = [A, B]"
    if "slot_rows mid db = []"
    using that by (simp add: v2 v slot_items_empty new_def)
  show ?thesis
    unfolding Let_def mid_def [symmetric] db'_def [symmetric] new_def [symmetric]
    using h m i v e ab by blast
qed

lemma ex_new_slot:
  "find (conflict ''u1'' 6 ''Snack 1'') (meals ex_db) = None"
  "snd (insert_meal_on_conflict ex_gen 7 ''u1'' 6 ''Sat'' ''Snack 1'' ex_db) = ''kkkkk''"
  "''kkkkk'' \<notin> meal_id ` set (meal_items ex_db)"
  "slot_rows ''kkkkk'' ex_db = []"
  "ex_gen (map meals_id (meals ex_db)) = ''kkkkk''"
  "slot_items ''kkkkk'' ex_db = []"
  by (simp_all add: insert_meal_on_conflict_def Let_def ex_db_def conflict_def ex_gen_def
        slot_rows_def slot_items_def)

theorem add_meal_item_appends_witness:
  "find (conflict ''u1'' 6 ''Snack 1'') (meals ex_db) = None
   \<and> ''kkkkk'' \<notin> meal_id ` set (meal_items ex_db)
   \<and> slot_rows ''kkkkk'' ex_db = []
   \<and> map (\<lambda>r. (food_id r, sort_order r))
        (slot_items ''kkkkk'' (add_meal_item ex_gen 7 ''u1'' 6 ''Sat'' ''Snack 1'' ''f1'' ex_db))
       = [(''f1'', 0)]
   \<and> map food_id (slot_items ''kkkkk''
        (add_meal_item ex_gen 8 ''u1'' 6 ''Sat'' ''Snack 1'' ''f2''
          (add_meal_item ex_gen 7 ''u1'' 6 ''Sat'' ''Snack 1'' ''f1'' ex_db)))
       = [''f1'', ''f2'']"
  using add_meal_item_appends
    [of ex_gen 7 "''u1''" 6 "''Sat''" "''Snack 1''" ex_db "''f1''" 8 "''Sat''" "''f2''"]
  by (simp add: Let_def ex_new_slot)

subsection \<open>Remove-one\<close>

lemma remove_view:
  "slot_items m (remove_meal_item mid fid db) =
     filter (\<lambda>r. \<not> (m = mid \<and> food_id r = fid)) (slot_items m db)"
proof -
  have "slot_rows m (remove_meal_item mid fid db)
          = filter (\<lambda>r. \<not> (m = mid \<and> food_id r = fid)) (slot_rows m db)"
    by (auto simp: slot_rows_def remove_meal_item_def intro: filter_cong)
  then show ?thesis by (simp add: slot_items_def filter_sort)
qed

lemma remove_meals: "meals (remove_meal_item mid fid db) = meals db"
  by (simp add: remove_meal_item_def)

lemma same_slot_after_remove:
  "snd (insert_meal_on_conflict gen now u d dow t (remove_meal_item mid fid db))
     = snd (insert_meal_on_conflict gen now u d dow t db)"
  by (simp add: insert_meal_on_conflict_def remove_meals Let_def split: option.splits)

text \<open>
  C7, as amended. For every slot id and food id, remove-item deletes every item row of
  that slot with that food id (all of them when the food occurs more than once in the
  slot) and nothing else: the remaining rows are the earlier rows, unchanged (same id,
  same sort index), every slot reads back as its earlier items without the deleted ones,
  in the same order, no index is renumbered, and the headers are untouched. For distinct
  foods \<open>A\<close> and \<open>B\<close> added to a slot without rows, removing \<open>A\<close> and adding \<open>C\<close> gives
  the order \<open>[B, C]\<close>, with the indices 1 and 2 (the gap at 0 stays).
\<close>

theorem remove_meal_item_frame:
  "let db' = remove_meal_item mid fid db;
       slot = snd (insert_meal_on_conflict gen now u d dow t db);
       db1 = add_meal_item gen now u d dow t A db;
       db2 = add_meal_item gen now u d dow t B db1;
       db3 = remove_meal_item slot A db2;
       db4 = add_meal_item gen now u d dow t C db3
   in (\<forall>r. r \<in> set (meal_items db')
            \<longleftrightarrow> r \<in> set (meal_items db) \<and> \<not> (meal_id r = mid \<and> food_id r = fid))
      \<and> (\<forall>m. slot_items m db'
               = filter (\<lambda>r. \<not> (m = mid \<and> food_id r = fid)) (slot_items m db))
      \<and> meals db' = meals db
      \<and> (slot_rows slot db = [] \<and> A \<noteq> B
           \<longrightarrow> map (\<lambda>r. (food_id r, sort_order r)) (slot_items slot db2) = [(A, 0), (B, 1)]
               \<and> map (\<lambda>r. (food_id r, sort_order r)) (slot_items slot db3) = [(B, 1)]
               \<and> map (\<lambda>r. (food_id r, sort_order r)) (slot_items slot db4) = [(B, 1), (C, 2)])"
proof -
  define slot where "slot = snd (insert_meal_on_conflict gen now u d dow t db)"
  define db1 where "db1 = add_meal_item gen now u d dow t A db"
  define db2 where "db2 = add_meal_item gen now u d dow t B db1"
  define db3 where "db3 = remove_meal_item slot A db2"
  define db4 where "db4 = add_meal_item gen now u d dow t C db3"
  have s1: "snd (insert_meal_on_conflict gen now u d dow t db1) = slot"
    by (simp add: db1_def slot_def add_meal_item_same_slot)
  have s2: "snd (insert_meal_on_conflict gen now u d dow t db2) = slot"
    by (simp add: db2_def add_meal_item_same_slot s1)
  have s3: "snd (insert_meal_on_conflict gen now u d dow t db3) = slot"
    by (simp add: db3_def same_slot_after_remove s2)
  have ex: "map (\<lambda>r. (food_id r, sort_order r)) (slot_items slot db2) = [(A, 0), (B, 1)]
            \<and> map (\<lambda>r. (food_id r, sort_order r)) (slot_items slot db3) = [(B, 1)]
            \<and> map (\<lambda>r. (food_id r, sort_order r)) (slot_items slot db4) = [(B, 1), (C, 2)]"
    if e: "slot_rows slot db = []" and ab: "A \<noteq> B"
  proof -
    have v1: "slot_items slot db1 = [\<lparr>meal_items_id = gen (map meal_items_id (meal_items db)),
                        meal_id = slot, food_id = A, sort_order = 0\<rparr>]"
      using add_meal_item_view [of slot gen now u d dow t db A] e
      by (simp add: db1_def slot_def [symmetric] slot_items_empty next_order_eq)
    have r1: "set (slot_rows slot db1) = {\<lparr>meal_items_id = gen (map meal_items_id (meal_items db)),
                        meal_id = slot, food_id = A, sort_order = 0\<rparr>}"
      by (simp add: set_slot_items [symmetric] v1)
    have n1: "next_order slot db1 = 1"
      using r1 by (cases "slot_rows slot db1 = []") (simp_all add: next_order_eq)
    have v2: "slot_items slot db2 = slot_items slot db1
                @ [\<lparr>meal_items_id = gen (map meal_items_id (meal_items db1)),
                    meal_id = slot, food_id = B, sort_order = 1\<rparr>]"
      using add_meal_item_view [of slot gen now u d dow t db1 B]
      by (simp add: db2_def s1 n1)
    have v3: "slot_items slot db3 = [\<lparr>meal_items_id = gen (map meal_items_id (meal_items db1)),
                        meal_id = slot, food_id = B, sort_order = 1\<rparr>]"
      using ab by (simp add: db3_def remove_view v2 v1)
    have r3: "set (slot_rows slot db3) = {\<lparr>meal_items_id = gen (map meal_items_id (meal_items db1)),
                        meal_id = slot, food_id = B, sort_order = 1\<rparr>}"
      by (simp add: set_slot_items [symmetric] v3)
    have n3: "next_order slot db3 = 2"
      using r3 by (cases "slot_rows slot db3 = []") (simp_all add: next_order_eq)
    have v4: "slot_items slot db4 = slot_items slot db3
                @ [\<lparr>meal_items_id = gen (map meal_items_id (meal_items db3)),
                    meal_id = slot, food_id = C, sort_order = 2\<rparr>]"
      using add_meal_item_view [of slot gen now u d dow t db3 C]
      by (simp add: db4_def s3 n3)
    show ?thesis by (simp add: v4 v3 v2 v1)
  qed
  have a: "\<forall>r. r \<in> set (meal_items (remove_meal_item mid fid db))
             \<longleftrightarrow> r \<in> set (meal_items db) \<and> \<not> (meal_id r = mid \<and> food_id r = fid)"
    by (auto simp: remove_meal_item_def)
  show ?thesis
    unfolding Let_def slot_def [symmetric] db1_def [symmetric] db2_def [symmetric]
      db3_def [symmetric] db4_def [symmetric]
    using a ex by (simp add: remove_view remove_meals)
qed

lemma ex_other_slot:
  "find (conflict ''u1'' 7 ''Dinner'') (meals ex_db) = None"
  "snd (insert_meal_on_conflict ex_gen 7 ''u1'' 7 ''Sun'' ''Dinner'' ex_db) = ''kkkkk''"
  by (simp_all add: insert_meal_on_conflict_def Let_def ex_db_def conflict_def ex_gen_def)

theorem remove_meal_item_frame_witness:
  "slot_rows ''kkkkk'' ex_db = [] \<and> ''f1'' \<noteq> ''f2''
   \<and> map (\<lambda>r. (food_id r, sort_order r))
        (slot_items ''kkkkk''
          (add_meal_item ex_gen 7 ''u1'' 7 ''Sun'' ''Dinner'' ''f3''
            (remove_meal_item ''kkkkk'' ''f1''
              (add_meal_item ex_gen 7 ''u1'' 7 ''Sun'' ''Dinner'' ''f2''
                (add_meal_item ex_gen 7 ''u1'' 7 ''Sun'' ''Dinner'' ''f1'' ex_db)))))
       = [(''f2'', 1), (''f3'', 2)]
   \<and> meal_items (remove_meal_item ''m1'' ''f1'' ex_db)
       = [\<lparr>meal_items_id = ''i2'', meal_id = ''m2'', food_id = ''f2'', sort_order = 0\<rparr>]"
proof -
  have r: "meal_items (remove_meal_item ''m1'' ''f1'' ex_db)
       = [\<lparr>meal_items_id = ''i2'', meal_id = ''m2'', food_id = ''f2'', sort_order = 0\<rparr>]"
    by (simp add: remove_meal_item_def ex_db_def)
  show ?thesis
    using remove_meal_item_frame
      [of "''m1''" "''f1''" ex_db ex_gen 7 "''u1''" 7 "''Sun''" "''Dinner''" "''f1''" "''f2''" "''f3''"]
    by (simp add: Let_def ex_other_slot ex_new_slot r)
qed

text \<open>
  C7 as written speaks of the one item row matching the slot and the food id, and of
  \<open>[B, C]\<close> after \<open>[A, B]\<close> without requiring \<open>A\<close> and \<open>B\<close> to differ. Nothing keeps a
  food from being in a slot twice, and the delete is by slot and food id: with the same
  food added twice (\<open>[A, A]\<close>), removing it deletes both rows, and adding \<open>C\<close> gives \<open>[C]\<close>
  with index 0.
\<close>

theorem remove_meal_item_duplicate_counterexample:
  "map food_id (slot_items ''kkkkk'' ex_twice) = [''f1'', ''f1'']
   \<and> map sort_order (slot_items ''kkkkk'' ex_twice) = [0, 1]
   \<and> length (meal_items ex_twice) = 4
   \<and> length (meal_items ex_twice_removed) = 2
   \<and> slot_items ''kkkkk'' ex_twice_removed = []
   \<and> map food_id (slot_items ''kkkkk'' ex_twice_after) = [''f3'']
   \<and> map sort_order (slot_items ''kkkkk'' ex_twice_after) = [0]
   \<and> map food_id (slot_items ''kkkkk'' ex_twice_after) \<noteq> [''f1'', ''f3'']"
  by (simp add: ex_twice_after_def ex_twice_removed_def ex_twice_def add_meal_item_def
        insert_meal_on_conflict_def next_order_def insert_meal_item_def remove_meal_item_def
        slot_items_def slot_rows_def ex_db_def ex_gen_def conflict_def Let_def)

section \<open>Catalog creation\<close>

lemma nutrient_names_selected: "(nm \<in> set (nutrient_names mp)) = selected mp nm"
  by (auto simp: nutrient_names_def selected_def truthy_iff)

lemma insert_nutrient_mappings_rows:
  "food_nutrients (insert_nutrient_mappings fid mp db) =
     food_nutrients db @
       map (\<lambda>n. \<lparr>fn_food_id = fid, nutrient_id = nutrients_id n, is_present = True\<rparr>)
           (filter (\<lambda>n. selected mp (nutrient_name n)) (nutrients db))"
proof (cases "nutrient_names mp = []")
  case True
  then have "\<And>nm. \<not> selected mp nm"
    using nutrient_names_selected [of _ mp] by simp
  with True show ?thesis by (simp add: insert_nutrient_mappings_def)
next
  case False
  then show ?thesis
    by (simp add: insert_nutrient_mappings_def nutrient_names_selected)
qed

text \<open>
  C10. For every input, the item create-food returns has the flags calcium, iron, folic
  acid and protein all false and vitamin D, omega-3 and fiber all \<open>None\<close>, whatever flags
  the input carries, because the stored row is mapped without a nutrient list; the
  storage nevertheless receives one mapping row (food id, nutrient id, true) for every
  row of the nutrients table whose name the input's flags select.
\<close>

theorem create_food_response:
  "let res = create_food gen food db; db' = fst res; item = snd res in
     fi_containsMicronutrients item =
       \<lparr>calcium = False, iron = False, folicAcid = False, protein = False,
        vitaminD = None, omega3 = None, fiber = None\<rparr>
     \<and> fi_id item = gen (map row_id (foods db))
     \<and> food_nutrients db' = food_nutrients db @
         map (\<lambda>n. \<lparr>fn_food_id = fi_id item, nutrient_id = nutrients_id n, is_present = True\<rparr>)
             (filter (\<lambda>n. selected (fc_containsMicronutrients food) (nutrient_name n))
                     (nutrients db))"
  by (simp add: create_food_def Let_def map_food_item_def insert_nutrient_mappings_rows)

theorem create_food_response_witness:
  "calcium (fc_containsMicronutrients ex_food)
   \<and> vitaminD (fc_containsMicronutrients ex_food) = Some True
   \<and> \<not> calcium (fi_containsMicronutrients (snd (create_food ex_gen ex_food ex_db)))
   \<and> vitaminD (fi_containsMicronutrients (snd (create_food ex_gen ex_food ex_db))) = None
   \<and> fi_id (snd (create_food ex_gen ex_food ex_db)) = ''kkkk''
   \<and> food_nutrients (fst (create_food ex_gen ex_food ex_db))
       = food_nutrients ex_db
         @ [\<lparr>fn_food_id = ''kkkk'', nutrient_id = ''n1'', is_present = True\<rparr>]
   \<and> map_option (\<lambda>item. calcium (fi_containsMicronutrients item))
        (get_food_by_id (fst (create_food ex_gen ex_food ex_db)) ''kkkk'') = Some True"
proof -
  have i: "ex_gen (map row_id (foods ex_db)) = ''kkkk''"
    by (simp add: ex_db_def ex_gen_def)
  have n: "map (\<lambda>n. \<lparr>fn_food_id = ''kkkk'', nutrient_id = nutrients_id n, is_present = True\<rparr>)
             (filter (\<lambda>n. selected (fc_containsMicronutrients ex_food) (nutrient_name n))
                     (nutrients ex_db))
           = [\<lparr>fn_food_id = ''kkkk'', nutrient_id = ''n1'', is_present = True\<rparr>]"
    by (simp add: ex_db_def ex_food_def selected_def)
  have g: "map_option (\<lambda>item. calcium (fi_containsMicronutrients item))
        (get_food_by_id (fst (create_food ex_gen ex_food ex_db)) ''kkkk'') = Some True"
    by (simp add: get_food_by_id_def create_food_def Let_def insert_nutrient_mappings_def
          nutrient_names_def get_food_nutrients_map_def food_nutrients_query_def
          get_or_empty_def map_food_item_def ex_db_def ex_food_def ex_gen_def
          ex_oatmeal_def ex_spinach_def ex_brie_def)
  show ?thesis
    using create_food_response [of ex_gen ex_food ex_db]
    by (simp add: Let_def i n g) (simp add: ex_food_def)
qed


end
